theory Spec2Isabelle
  imports Main "HOL-Library.Char_ord" "HOL-Library.List_Lexorder"
begin

section \<open>Python values, exceptions and messages\<close>

text \<open>
  The raw configuration is a Python \<^verbatim>\<open>Dict[str, Any]\<close>. The values a key may hold
  are modelled by the JSON-like fragment below (\<^verbatim>\<open>None\<close>, \<^verbatim>\<open>str\<close>, \<^verbatim>\<open>int\<close>,
  \<^verbatim>\<open>list\<close>); other input kinds (tuples, bytes, nested dicts) are outside the model.
\<close>

datatype pyval = PyNone | PyStr string | PyInt int | PyList "pyval list"

type_synonym raw_config = "string \<rightharpoonup> pyval"

text \<open>
  An entry of \<^verbatim>\<open>ValidationError.errors()\<close>: the location tuple \<^verbatim>\<open>err['loc']\<close> and the
  message \<^verbatim>\<open>err['msg']\<close>. The messages are kept structured: each constructor stands for
  one fixed text of the validation library, and \<open>ValueError\<close> carries what the model
  validator of \<^verbatim>\<open>ConfigModel\<close> formats into its message (an f-string over a Python set,
  whose printed order is unspecified, or over a list).
\<close>

datatype loc_item = Key string | Idx nat

datatype value_error =
    Overlap "string set"
  | DuplicateRow "string list"
  | DuplicateCol "string list"

datatype pyd_msg =
    FieldRequired
  | ValidList
  | ValidString
  | TooShort
  | ValueError value_error

type_synonym error_details = "loc_item list \<times> pyd_msg"

text \<open>
  The text of an exception, \<^verbatim>\<open>str(e)\<close>. One constructor per f-string of the source;
  \<open>Text\<close> is the text of an exception raised by the external collaborator, and
  \<open>UnboundLocal\<close> the interpreter's sentence about reading the named local variable
  before it is bound (its wording depends on the Python version).
\<close>

datatype message =
    Text string
  | ValidationFailed "error_details list"
  | UnexpectedValidation message
  | PathNotSet
  | EditionNotSet
  | ImportFailed string message
  | InitFailed message
  | LoadFailed "string list" message
  | UnboundLocal string

text \<open>
  Exception classes: the three classes of \<^verbatim>\<open>exceptions.py\<close>; \<^verbatim>\<open>ImportError\<close> and,
  by name, any of its subclasses (\<^verbatim>\<open>ModuleNotFoundError\<close>, \<^verbatim>\<open>ZipImportError\<close>), all
  of which \<^verbatim>\<open>except ImportError\<close> catches; \<^verbatim>\<open>UnboundLocalError\<close>; and, by name, any
  other subclass of \<^verbatim>\<open>Exception\<close> that is neither of the taxonomy nor an import error.
  Exceptions outside \<^verbatim>\<open>Exception\<close> (\<^verbatim>\<open>KeyboardInterrupt\<close>, \<^verbatim>\<open>SystemExit\<close>) are not
  modelled.
\<close>

datatype exn_class =
    StataToDfBaseError
  | ConfigValidationError
  | DataLoaderError
  | ImportError
  | ImportErrorSubclass string
  | UnboundLocalError
  | OtherException string

datatype exn = Exn (cls: exn_class) (msg: message)

fun is_StataToDfBaseError :: "exn_class \<Rightarrow> bool" where
  "is_StataToDfBaseError StataToDfBaseError = True"
| "is_StataToDfBaseError ConfigValidationError = True"
| "is_StataToDfBaseError DataLoaderError = True"
| "is_StataToDfBaseError _ = False"

fun is_DataLoaderError :: "exn_class \<Rightarrow> bool" where
  "is_DataLoaderError DataLoaderError = True"
| "is_DataLoaderError _ = False"

fun is_ImportError :: "exn_class \<Rightarrow> bool" where
  "is_ImportError ImportError = True"
| "is_ImportError (ImportErrorSubclass _) = True"
| "is_ImportError _ = False"

section \<open>config.py\<close>

record ConfigModel =
  row_var :: "string list"
  col_var :: "string list"
  value_var :: string
  pweight :: "string option"
  secondary_ref :: "string option"

text \<open>
  \<^verbatim>\<open>if self.pweight: core_vars.add(self.pweight)\<close>: the name is added when the field is
  neither \<^verbatim>\<open>None\<close> nor the empty string. The same statement, on \<^verbatim>\<open>required_vars\<close>,
  is in \<^verbatim>\<open>load_data\<close>.
\<close>

definition add_if_truthy :: "string option \<Rightarrow> string set \<Rightarrow> string set" where
  "add_if_truthy field vars =
     (case field of
        None \<Rightarrow> vars
      | Some name \<Rightarrow> if name = [] then vars else insert name vars)"

definition core_vars :: "ConfigModel \<Rightarrow> string set" where
  "core_vars c = add_if_truthy (secondary_ref c) (add_if_truthy (pweight c) {value_var c})"

definition all_index_vars :: "ConfigModel \<Rightarrow> string set" where
  "all_index_vars c = set (row_var c @ col_var c)"

text \<open>
  The model validator. A raised \<^verbatim>\<open>ValueError\<close> is the left summand; the checks are in
  the order of the source.
\<close>

definition check_variable_names_distinct :: "ConfigModel \<Rightarrow> value_error + ConfigModel" where
  "check_variable_names_distinct c =
     (let overlap = core_vars c \<inter> all_index_vars c in
      if overlap \<noteq> {} then Inl (Overlap overlap)
      else if length (row_var c) \<noteq> card (set (row_var c)) then Inl (DuplicateRow (row_var c))
      else if length (col_var c) \<noteq> card (set (col_var c)) then Inl (DuplicateCol (col_var c))
      else Inr c)"

subsection \<open>Validation of the declared fields\<close>

text \<open>
  \<^verbatim>\<open>ConfigModel.model_validate\<close> belongs to the validation library, not to this
  repository; what follows is its behaviour on the five field declarations of
  \<^verbatim>\<open>ConfigModel\<close>: every field is validated, in the order of declaration, the errors
  of all fields are collected, and the \<^verbatim>\<open>mode='after'\<close> validator runs on the built
  object only when no field failed. Its \<^verbatim>\<open>ValueError\<close> becomes a validation error
  with one entry, at the empty location. Keys that are not fields are ignored.
\<close>

definition validate_str :: "loc_item list \<Rightarrow> pyval \<Rightarrow> error_details list + string" where
  "validate_str loc v = (case v of PyStr s \<Rightarrow> Inr s | _ \<Rightarrow> Inl [(loc, ValidString)])"

fun validate_items :: "loc_item list \<Rightarrow> nat \<Rightarrow> pyval list \<Rightarrow> error_details list \<times> string list" where
  "validate_items loc i [] = ([], [])"
| "validate_items loc i (v # vs) =
     (let (errs, items) = validate_items loc (Suc i) vs in
      case validate_str (loc @ [Idx i]) v of
        Inl e \<Rightarrow> (e @ errs, items)
      | Inr s \<Rightarrow> (errs, s # items))"

definition validate_list_str :: "loc_item list \<Rightarrow> pyval \<Rightarrow> error_details list + string list" where
  "validate_list_str loc v =
     (case v of
        PyList vs \<Rightarrow>
          (let (errs, items) = validate_items loc 0 vs in
           if errs \<noteq> [] then Inl errs
           else if length items < 1 then Inl [(loc, TooShort)]
           else Inr items)
      | _ \<Rightarrow> Inl [(loc, ValidList)])"

definition required_field ::
  "(loc_item list \<Rightarrow> pyval \<Rightarrow> error_details list + 'a) \<Rightarrow> raw_config \<Rightarrow> string \<Rightarrow> error_details list + 'a" where
  "required_field validate config_dict name =
     (case config_dict name of
        None \<Rightarrow> Inl [([Key name], FieldRequired)]
      | Some v \<Rightarrow> validate [Key name] v)"

definition optional_str_field :: "raw_config \<Rightarrow> string \<Rightarrow> error_details list + string option" where
  "optional_str_field config_dict name =
     (case config_dict name of
        None \<Rightarrow> Inr None
      | Some PyNone \<Rightarrow> Inr None
      | Some v \<Rightarrow> map_sum id Some (validate_str [Key name] v))"

fun errors_of :: "error_details list + 'a \<Rightarrow> error_details list" where
  "errors_of (Inl errs) = errs"
| "errors_of (Inr _) = []"

definition validate_fields :: "raw_config \<Rightarrow> error_details list + ConfigModel" where
  "validate_fields config_dict =
     (let r = required_field validate_list_str config_dict ''row_var'';
          c = required_field validate_list_str config_dict ''col_var'';
          v = required_field validate_str config_dict ''value_var'';
          p = optional_str_field config_dict ''pweight'';
          s = optional_str_field config_dict ''secondary_ref''
      in case (r, c, v, p, s) of
           (Inr r', Inr c', Inr v', Inr p', Inr s') \<Rightarrow>
             Inr \<lparr>row_var = r', col_var = c', value_var = v', pweight = p', secondary_ref = s'\<rparr>
         | _ \<Rightarrow> Inl (errors_of r @ errors_of c @ errors_of v @ errors_of p @ errors_of s))"

definition model_validate :: "raw_config \<Rightarrow> error_details list + ConfigModel" where
  "model_validate config_dict =
     (case validate_fields config_dict of
        Inl errs \<Rightarrow> Inl errs
      | Inr c \<Rightarrow>
          (case check_variable_names_distinct c of
             Inl e \<Rightarrow> Inl [([], ValueError e)]
           | Inr c' \<Rightarrow> Inr c'))"

text \<open>
  \<^verbatim>\<open>validate_config\<close>. The \<^verbatim>\<open>sdc_rules\<close> branch of the source only executes
  \<^verbatim>\<open>pass\<close>. On a dictionary of the values above \<^verbatim>\<open>model_validate\<close> raises nothing but
  \<^verbatim>\<open>ValidationError\<close>, so the second handler (\<^verbatim>\<open>except Exception\<close>) has no case here.
\<close>

definition validate_config :: "raw_config \<Rightarrow> exn + ConfigModel" where
  "validate_config config_dict =
     (case model_validate config_dict of
        Inr validated_config \<Rightarrow> Inr validated_config
      | Inl errors \<Rightarrow> Inl (Exn ConfigValidationError (ValidationFailed errors)))"

section \<open>The external session and the process state\<close>

text \<open>
  A table as returned by the session: named columns and one list of cells per
  observation. The cells are never inspected by this program.
\<close>

record 'c dataframe =
  columns :: "string list"
  rows :: "'c list list"

text \<open>\<^verbatim>\<open>df.empty\<close>: some axis has length 0. \<^verbatim>\<open>df.shape\<close>: rows, columns.\<close>

definition df_empty :: "'c dataframe \<Rightarrow> bool" where
  "df_empty df = (rows df = [] \<or> columns df = [])"

definition shape :: "'c dataframe \<Rightarrow> nat \<times> nat" where
  "shape df = (length (rows df), length (columns df))"

text \<open>
  The handle that \<^verbatim>\<open>setup_stata\<close> returns is the module \<^verbatim>\<open>pystata.stata\<close>; the one
  operation used on it is \<^verbatim>\<open>pdataframe_from_data(var=..., valuelabel=..., missingval=np.nan)\<close>,
  which raises or returns a table.
\<close>

type_synonym 'c stata = "string list \<Rightarrow> bool \<Rightarrow> exn + 'c dataframe"

text \<open>
  The external collaborator: the two import statements (which depend on \<^verbatim>\<open>sys.path\<close>)
  and \<^verbatim>\<open>pystata_config.init\<close> either raise (\<open>Some e\<close>) or complete (\<open>None\<close>).
\<close>

record 'c pystata =
  import_config :: "string list \<Rightarrow> exn option"
  config_init :: "string \<Rightarrow> exn option"
  import_stata :: "string list \<Rightarrow> exn option"
  pdataframe_from_data :: "'c stata"

text \<open>
  What the program reads and does not change: the two module-level constants read from
  the process environment at import time (\<^verbatim>\<open>os.environ.get(..., None)\<close>), the
  collaborator, and the order in which Python enumerates a set, which the language
  leaves unspecified and which is therefore a parameter: for each set, a rank of its
  members.
\<close>

record 'c env =
  PYSTATA_PATH :: "string option"
  STATA_EDITION :: "string option"
  pystata :: "'c pystata"
  set_order :: "string set \<Rightarrow> string \<Rightarrow> nat"

text \<open>
  \<^verbatim>\<open>list(s)\<close> for a set \<open>s\<close>: each member once, in the order of the ranks that the
  environment gives for this set (members of equal rank in alphabetical order). Every
  enumeration of a finite set without repetition is of this form for some ranks.
\<close>

definition list_of_set :: "'c env \<Rightarrow> string set \<Rightarrow> string list" where
  "list_of_set env s = sort_key (set_order env s) (sorted_list_of_set s)"

text \<open>
  What the program changes: \<^verbatim>\<open>sys.path\<close>, the calls made to the collaborator (oldest
  first) and the records handed to the logger. \<^verbatim>\<open>print\<close> output is not modelled.
\<close>

datatype ext_call =
    ImportPystataConfig
  | ConfigInit string
  | ImportPystataStata
  | PdataframeFromData "string list" bool

datatype level = DEBUG | INFO | WARNING | ERROR

datatype log_msg =
    SetupAttempt
  | AddingPath string
  | PathAlready string
  | AddingEdition string
  | EditionAlready string
  | PystataInitialized
  | LoadAttempt
  | RequestingVariables "string list"
  | LoadedShape "nat \<times> nat"
  | ColumnsLoaded "string list"
  | EmptyFrame
  | ErrorMsg message
  | ConfigOrLoadError message
  | UnexpectedError message

record world =
  sys_path :: "string list"
  calls :: "ext_call list"
  log :: "(level \<times> log_msg) list"

definition logger :: "level \<Rightarrow> log_msg \<Rightarrow> world \<Rightarrow> world" where
  "logger l m w = w\<lparr>log := log w @ [(l, m)]\<rparr>"

definition call :: "ext_call \<Rightarrow> world \<Rightarrow> world" where
  "call c w = w\<lparr>calls := calls w @ [c]\<rparr>"

section \<open>__init__.py\<close>

subsection \<open>setup_stata\<close>

text \<open>
  \<^verbatim>\<open>if X not in sys.path: sys.path.append(X)\<close>, with the debug record of either branch.
\<close>

definition add_to_sys_path :: "(string \<Rightarrow> log_msg) \<Rightarrow> (string \<Rightarrow> log_msg) \<Rightarrow> string \<Rightarrow> world \<Rightarrow> world" where
  "add_to_sys_path adding already x w =
     (if x \<notin> set (sys_path w)
      then (logger DEBUG (adding x) w)\<lparr>sys_path := sys_path w @ [x]\<rparr>
      else logger DEBUG (already x) w)"

text \<open>The two handlers of the \<^verbatim>\<open>try\<close> block of \<^verbatim>\<open>setup_stata\<close>.\<close>

definition setup_stata_except :: "string \<Rightarrow> exn \<Rightarrow> world \<Rightarrow> (exn + 'a) \<times> world" where
  "setup_stata_except path e w =
     (let m = (if is_ImportError (cls e) then ImportFailed path (msg e) else InitFailed (msg e))
      in (Inl (Exn DataLoaderError m), logger ERROR (ErrorMsg m) w))"

definition setup_stata :: "'c env \<Rightarrow> world \<Rightarrow> (exn + 'c stata) \<times> world" where
  "setup_stata env w0 =
     (let w1 = logger DEBUG SetupAttempt w0 in
      case PYSTATA_PATH env of
        None \<Rightarrow> (Inl (Exn DataLoaderError PathNotSet), logger ERROR (ErrorMsg PathNotSet) w1)
      | Some path \<Rightarrow>
         (if path = [] then (Inl (Exn DataLoaderError PathNotSet), logger ERROR (ErrorMsg PathNotSet) w1)
          else
           (let w2 = add_to_sys_path AddingPath PathAlready path w1 in
            (case STATA_EDITION env of
               None \<Rightarrow> (Inl (Exn DataLoaderError EditionNotSet), logger ERROR (ErrorMsg EditionNotSet) w2)
             | Some edition \<Rightarrow>
                (if edition = [] then (Inl (Exn DataLoaderError EditionNotSet), logger ERROR (ErrorMsg EditionNotSet) w2)
                 else
                  (let w3 = add_to_sys_path AddingEdition EditionAlready edition w2;
                       w4 = call ImportPystataConfig w3 in
                   (case import_config (pystata env) (sys_path w4) of
                      Some e \<Rightarrow> setup_stata_except path e w4
                    | None \<Rightarrow>
                       (let w5 = call (ConfigInit edition) w4 in
                        (case config_init (pystata env) edition of
                           Some e \<Rightarrow> setup_stata_except path e w5
                         | None \<Rightarrow>
                            (let w6 = call ImportPystataStata w5 in
                             (case import_stata (pystata env) (sys_path w6) of
                                Some e \<Rightarrow> setup_stata_except path e w6
                              | None \<Rightarrow>
                                  (Inr (pdataframe_from_data (pystata env)),
                                   logger INFO PystataInitialized w6))))))))))))"

subsection \<open>load_data\<close>

definition required_vars :: "ConfigModel \<Rightarrow> string set" where
  "required_vars config =
     add_if_truthy (secondary_ref config)
       (add_if_truthy (pweight config) (set (row_var config @ col_var config @ [value_var config])))"

text \<open>
  The handlers of \<^verbatim>\<open>load_data\<close>: a \<^verbatim>\<open>DataLoaderError\<close> is raised again as it is; any
  other exception is wrapped in a message built from \<^verbatim>\<open>st_import_vars\<close>. That local
  name is bound only after \<^verbatim>\<open>setup_stata\<close> has returned (\<open>None\<close>: not yet bound, and
  reading it raises \<^verbatim>\<open>UnboundLocalError\<close> out of the handler).
\<close>

definition load_data_except :: "string list option \<Rightarrow> exn \<Rightarrow> world \<Rightarrow> (exn + 'a) \<times> world" where
  "load_data_except st_import_vars e w =
     (if is_DataLoaderError (cls e) then (Inl e, w)
      else case st_import_vars of
             None \<Rightarrow> (Inl (Exn UnboundLocalError (UnboundLocal ''st_import_vars'')), w)
           | Some vars \<Rightarrow>
               (let m = LoadFailed vars (msg e)
                in (Inl (Exn DataLoaderError m), logger ERROR (ErrorMsg m) w)))"

definition load_data :: "'c env \<Rightarrow> ConfigModel \<Rightarrow> bool \<Rightarrow> world \<Rightarrow> (exn + 'c dataframe) \<times> world" where
  "load_data env config valuelabel w0 =
     (let required = required_vars config;
          w1 = logger INFO LoadAttempt w0 in
      case setup_stata env w1 of
        (Inl e, w2) \<Rightarrow> load_data_except None e w2
      | (Inr stata, w2) \<Rightarrow>
         (let st_import_vars = list_of_set env required;
              w3 = logger DEBUG (RequestingVariables st_import_vars) w2;
              w4 = call (PdataframeFromData st_import_vars valuelabel) w3 in
          (case stata st_import_vars valuelabel of
             Inl e \<Rightarrow> load_data_except (Some st_import_vars) e w4
           | Inr df \<Rightarrow>
              (let w5 = logger INFO (LoadedShape (shape df)) w4;
                   w6 = logger DEBUG (ColumnsLoaded (columns df)) w5;
                   w7 = (if df_empty df then logger WARNING EmptyFrame w6 else w6)
               in (Inr df, w7)))))"

subsection \<open>stata_to_df\<close>

text \<open>
  The two handlers of the public function: each logs and executes a bare \<^verbatim>\<open>raise\<close>.
\<close>

definition stata_to_df_except :: "exn \<Rightarrow> world \<Rightarrow> (exn + 'a) \<times> world" where
  "stata_to_df_except e w =
     (if is_StataToDfBaseError (cls e)
      then (Inl e, logger ERROR (ConfigOrLoadError (msg e)) w)
      else (Inl e, logger ERROR (UnexpectedError (msg e)) w))"

text \<open>
  The body of the public function, with the two functions it calls as parameters:
  \<^verbatim>\<open>config_module.validate_config\<close> and \<^verbatim>\<open>load_data\<close> are module attributes that
  Python looks up at each call. \<open>stata_to_df\<close> is the function with the repository's
  own two.
\<close>

definition stata_to_df_with ::
  "(raw_config \<Rightarrow> exn + 'k) \<Rightarrow> ('k \<Rightarrow> bool \<Rightarrow> world \<Rightarrow> (exn + 'a) \<times> world) \<Rightarrow>
   raw_config \<Rightarrow> bool \<Rightarrow> world \<Rightarrow> (exn + 'a) \<times> world" where
  "stata_to_df_with validate load config_dict valuelabel w =
     (case validate config_dict of
        Inl e \<Rightarrow> stata_to_df_except e w
      | Inr config \<Rightarrow>
          (case load config valuelabel w of
             (Inl e, w') \<Rightarrow> stata_to_df_except e w'
           | (Inr df, w') \<Rightarrow> (Inr df, w')))"

definition stata_to_df :: "'c env \<Rightarrow> raw_config \<Rightarrow> bool \<Rightarrow> world \<Rightarrow> (exn + 'c dataframe) \<times> world" where
  "stata_to_df env config_dict valuelabel w =
     stata_to_df_with validate_config (load_data env) config_dict valuelabel w"

section \<open>Structural violations, as the specification lists them\<close>

text \<open>
  The specification names three kinds of structural violation: a required field that
  is missing, a value of the wrong primitive type, an empty list. The predicate below
  follows these words, field by field, and pairs every violation with the entry that
  reports it. It is not taken from the source; it is what \<open>validate_config\<close> is
  compared with.
\<close>

fun is_str :: "pyval \<Rightarrow> bool" where
  "is_str (PyStr _) = True"
| "is_str _ = False"

fun is_list :: "pyval \<Rightarrow> bool" where
  "is_list (PyList _) = True"
| "is_list _ = False"

inductive spec_violation :: "raw_config \<Rightarrow> error_details \<Rightarrow> bool" for config_dict where
  missing_field:
    "name \<in> {''row_var'', ''col_var'', ''value_var''} \<Longrightarrow> config_dict name = None \<Longrightarrow>
     spec_violation config_dict ([Key name], FieldRequired)"
| not_a_list:
    "name \<in> {''row_var'', ''col_var''} \<Longrightarrow> config_dict name = Some v \<Longrightarrow> \<not> is_list v \<Longrightarrow>
     spec_violation config_dict ([Key name], ValidList)"
| empty_list:
    "name \<in> {''row_var'', ''col_var''} \<Longrightarrow> config_dict name = Some (PyList []) \<Longrightarrow>
     spec_violation config_dict ([Key name], TooShort)"
| item_not_a_string:
    "name \<in> {''row_var'', ''col_var''} \<Longrightarrow> config_dict name = Some (PyList vs) \<Longrightarrow>
     i < length vs \<Longrightarrow> \<not> is_str (vs ! i) \<Longrightarrow>
     spec_violation config_dict ([Key name, Idx i], ValidString)"
| value_not_a_string:
    "config_dict ''value_var'' = Some v \<Longrightarrow> \<not> is_str v \<Longrightarrow>
     spec_violation config_dict ([Key ''value_var''], ValidString)"
| optional_not_a_string:
    "name \<in> {''pweight'', ''secondary_ref''} \<Longrightarrow> config_dict name = Some v \<Longrightarrow>
     v \<noteq> PyNone \<Longrightarrow> \<not> is_str v \<Longrightarrow>
     spec_violation config_dict ([Key name], ValidString)"

section \<open>Example inputs\<close>

text \<open>
  A process in which both environment variables are set and the session initialises;
  the session holds no observations, so every request returns the requested columns
  and no rows. Sets are enumerated in alphabetical order (all ranks equal).
\<close>

definition ex_world :: world where
  "ex_world = \<lparr>sys_path = [], calls = [], log = []\<rparr>"

definition ex_pystata :: "string pystata" where
  "ex_pystata =
     \<lparr>import_config = (\<lambda>_. None), config_init = (\<lambda>_. None), import_stata = (\<lambda>_. None),
      pdataframe_from_data = (\<lambda>vars _. Inr \<lparr>columns = vars, rows = []\<rparr>)\<rparr>"

definition ex_env :: "string env" where
  "ex_env =
     \<lparr>PYSTATA_PATH = Some ''/stata/utilities'', STATA_EDITION = Some ''mp'',
      pystata = ex_pystata, set_order = (\<lambda>_ _. 0)\<rparr>"

text \<open>The same process with a session that rejects every request.\<close>

definition ex_rejected :: exn where
  "ex_rejected = Exn (OtherException ''SystemError'') (Text ''variable not found'')"

definition ex_env_rejecting :: "string env" where
  "ex_env_rejecting =
     ex_env\<lparr>pystata := ex_pystata\<lparr>pdataframe_from_data := (\<lambda>_ _. Inl ex_rejected)\<rparr>\<rparr>"

text \<open>The same process without the edition identifier.\<close>

definition ex_env_no_edition :: "string env" where
  "ex_env_no_edition = ex_env\<lparr>STATA_EDITION := None\<rparr>"

text \<open>A loading stage that raises an exception outside the taxonomy.\<close>

definition ex_key_error :: exn where
  "ex_key_error = Exn (OtherException ''KeyError'') (Text ''k'')"

definition ex_failing_load :: "ConfigModel \<Rightarrow> bool \<Rightarrow> world \<Rightarrow> (exn + string dataframe) \<times> world" where
  "ex_failing_load config valuelabel w = (Inl ex_key_error, w)"

text \<open>Raw configurations.\<close>

definition ex_income :: raw_config where
  "ex_income =
     [''row_var'' \<mapsto> PyList [PyStr ''region''], ''col_var'' \<mapsto> PyList [PyStr ''year''],
      ''value_var'' \<mapsto> PyStr ''income'']"

definition ex_weight_in_rows :: raw_config where
  "ex_weight_in_rows =
     [''row_var'' \<mapsto> PyList [PyStr ''region'', PyStr ''w''], ''col_var'' \<mapsto> PyList [PyStr ''year''],
      ''value_var'' \<mapsto> PyStr ''income'', ''pweight'' \<mapsto> PyStr ''w'']"

definition ex_empty_weight :: raw_config where
  "ex_empty_weight =
     [''row_var'' \<mapsto> PyList [PyStr []], ''col_var'' \<mapsto> PyList [PyStr ''year''],
      ''value_var'' \<mapsto> PyStr ''income'', ''pweight'' \<mapsto> PyStr []]"

definition ex_empty_weight_only :: raw_config where
  "ex_empty_weight_only =
     [''row_var'' \<mapsto> PyList [PyStr ''region''], ''col_var'' \<mapsto> PyList [PyStr ''year''],
      ''value_var'' \<mapsto> PyStr ''income'', ''pweight'' \<mapsto> PyStr []]"

definition ex_no_columns :: raw_config where
  "ex_no_columns =
     [''row_var'' \<mapsto> PyList [PyStr ''x''], ''col_var'' \<mapsto> PyList [],
      ''value_var'' \<mapsto> PyStr ''x'']"

definition ex_two_violations :: raw_config where
  "ex_two_violations =
     [''col_var'' \<mapsto> PyList [PyStr ''year''], ''value_var'' \<mapsto> PyInt 3]"

definition ex_duplicate_rows :: raw_config where
  "ex_duplicate_rows =
     [''row_var'' \<mapsto> PyList [PyStr ''region'', PyStr ''region''], ''col_var'' \<mapsto> PyList [PyStr ''year''],
      ''value_var'' \<mapsto> PyStr ''income'']"

definition ex_x_x :: raw_config where
  "ex_x_x =
     [''row_var'' \<mapsto> PyList [PyStr ''x''], ''col_var'' \<mapsto> PyList [PyStr ''x''],
      ''value_var'' \<mapsto> PyStr ''v'']"

section \<open>Properties of the validation\<close>

lemma validate_items_strings: "validate_items loc i (map PyStr xs) = ([], xs)"
  by (induction xs arbitrary: i) (simp_all add: validate_str_def)

lemma validate_list_str_strings:
  "xs \<noteq> [] \<Longrightarrow> validate_list_str loc (PyList (map PyStr xs)) = Inr xs"
  by (simp add: validate_list_str_def validate_items_strings)

lemma optional_str_field_cases:
  assumes "config_dict name = map_option PyStr p \<or> (config_dict name = Some PyNone \<and> p = None)"
  shows "optional_str_field config_dict name = Inr p"
  using assms by (cases p) (auto simp: optional_str_field_def validate_str_def)

lemma validate_fields_strings:
  assumes "config_dict ''row_var'' = Some (PyList (map PyStr rs))" and "rs \<noteq> []"
    and "config_dict ''col_var'' = Some (PyList (map PyStr cs))" and "cs \<noteq> []"
    and "config_dict ''value_var'' = Some (PyStr v)"
    and "config_dict ''pweight'' = map_option PyStr p \<or> (config_dict ''pweight'' = Some PyNone \<and> p = None)"
    and "config_dict ''secondary_ref'' = map_option PyStr s \<or> (config_dict ''secondary_ref'' = Some PyNone \<and> s = None)"
  shows "validate_fields config_dict =
           Inr \<lparr>row_var = rs, col_var = cs, value_var = v, pweight = p, secondary_ref = s\<rparr>"
proof -
  have r: "required_field validate_list_str config_dict ''row_var'' = Inr rs"
    using assms(1,2) by (simp add: required_field_def validate_list_str_strings)
  have c: "required_field validate_list_str config_dict ''col_var'' = Inr cs"
    using assms(3,4) by (simp add: required_field_def validate_list_str_strings)
  have v: "required_field validate_str config_dict ''value_var'' = Inr v"
    using assms(5) by (simp add: required_field_def validate_str_def)
  have p: "optional_str_field config_dict ''pweight'' = Inr p"
    using assms(6) by (rule optional_str_field_cases)
  have s: "optional_str_field config_dict ''secondary_ref'' = Inr s"
    using assms(7) by (rule optional_str_field_cases)
  show ?thesis
    by (simp add: validate_fields_def r c v p s)
qed

lemma no_duplicates_iff: "length xs \<noteq> card (set xs) \<longleftrightarrow> \<not> distinct xs"
  using distinct_card card_distinct by metis

lemma add_if_truthy_eq: "add_if_truthy field vars = vars \<union> {name. field = Some name \<and> name \<noteq> []}"
  by (auto simp: add_if_truthy_def split: option.splits)

lemma core_vars_eq:
  "core_vars c = {value_var c} \<union> {name. pweight c = Some name \<and> name \<noteq> []}
                   \<union> {name. secondary_ref c = Some name \<and> name \<noteq> []}"
  by (auto simp: core_vars_def add_if_truthy_eq)

lemma required_vars_eq:
  "required_vars c = set (row_var c) \<union> set (col_var c) \<union> {value_var c}
       \<union> {name. pweight c = Some name \<and> name \<noteq> []}
       \<union> {name. secondary_ref c = Some name \<and> name \<noteq> []}"
  by (auto simp: required_vars_def add_if_truthy_eq)

lemma check_variable_names_distinct_ok:
  assumes "core_vars c \<inter> all_index_vars c = {}" and "distinct (row_var c)" and "distinct (col_var c)"
  shows "check_variable_names_distinct c = Inr c"
  using assms by (simp add: check_variable_names_distinct_def no_duplicates_iff)

lemma check_variable_names_distinct_overlap:
  assumes "core_vars c \<inter> all_index_vars c \<noteq> {}"
  shows "check_variable_names_distinct c = Inl (Overlap (core_vars c \<inter> all_index_vars c))"
  using assms by (simp add: check_variable_names_distinct_def)

section \<open>Properties of the loader\<close>

lemma finite_required_vars: "finite (required_vars config)"
  by (simp add: required_vars_def add_if_truthy_def split: option.splits)

lemma distinct_list_of_set: "distinct (list_of_set env s)"
  by (simp add: list_of_set_def)

lemma set_list_of_set: "finite s \<Longrightarrow> set (list_of_set env s) = s"
  by (simp add: list_of_set_def)

lemma set_list_of_set_required_vars:
  "set (list_of_set env (required_vars config)) = required_vars config"
  by (simp add: set_list_of_set finite_required_vars)

lemma calls_logger [simp]: "calls (logger l m w) = calls w"
  by (simp add: logger_def)

lemma calls_add_to_sys_path [simp]: "calls (add_to_sys_path f g x w) = calls w"
  by (simp add: add_to_sys_path_def)

lemma log_call [simp]: "log (call c w) = log w"
  by (simp add: call_def)

lemma calls_call [simp]: "calls (call c w) = calls w @ [c]"
  by (simp add: call_def)

lemma log_logger [simp]: "log (logger l m w) = log w @ [(l, m)]"
  by (simp add: logger_def)

lemma setup_stata_except_raises:
  "setup_stata_except path e w = (r, w') \<Longrightarrow> \<exists>m. r = Inl (Exn DataLoaderError m)"
  by (auto simp: setup_stata_except_def Let_def)

lemma setup_stata_raises:
  assumes "setup_stata env w = (Inl e, w')"
  shows "cls e = DataLoaderError"
  using assms
  by (auto simp: setup_stata_def setup_stata_except_def Let_def split: option.splits if_splits)

lemma setup_stata_returns:
  assumes "setup_stata env w = (Inr stata, w')"
  shows "stata = pdataframe_from_data (pystata env)"
  using assms
  by (auto simp: setup_stata_def setup_stata_except_def Let_def split: option.splits if_splits)

lemma setup_stata_not_configured:
  assumes "PYSTATA_PATH env = None \<or> STATA_EDITION env = None"
  shows "\<exists>m w'. setup_stata env w = (Inl (Exn DataLoaderError m), w')
                  \<and> (m = PathNotSet \<or> m = EditionNotSet) \<and> calls w' = calls w"
proof (cases "PYSTATA_PATH env")
  case None
  then show ?thesis
    by (simp add: setup_stata_def)
next
  case (Some path)
  with assms have edition: "STATA_EDITION env = None"
    by simp
  show ?thesis
  proof (cases "path = []")
    case True
    with Some show ?thesis
      by (simp add: setup_stata_def)
  next
    case False
    with Some edition show ?thesis
      by (simp add: setup_stata_def Let_def)
  qed
qed

lemma load_data_setup_failed:
  assumes "setup_stata env (logger INFO LoadAttempt w) = (Inl e, w')"
  shows "load_data env config valuelabel w = (Inl e, w')"
  using assms setup_stata_raises [OF assms]
  by (simp add: load_data_def load_data_except_def Let_def)

lemma load_data_fetch_failed:
  assumes "setup_stata env (logger INFO LoadAttempt w) = (Inr stata, w')"
    and "stata (list_of_set env (required_vars config)) valuelabel = Inl e"
  shows "fst (load_data env config valuelabel w) =
           Inl (if is_DataLoaderError (cls e) then e
                else Exn DataLoaderError (LoadFailed (list_of_set env (required_vars config)) (msg e)))"
  using assms
  by (simp add: load_data_def load_data_except_def Let_def)

lemma load_data_calls:
  assumes "setup_stata env (logger INFO LoadAttempt w) = (Inr stata, w')"
  shows "calls (snd (load_data env config valuelabel w)) =
           calls w' @ [PdataframeFromData (list_of_set env (required_vars config)) valuelabel]"
  using assms
  by (auto simp: load_data_def load_data_except_def Let_def split: sum.splits)

lemma load_data_fetched:
  assumes "setup_stata env (logger INFO LoadAttempt w) = (Inr stata, w')"
    and "stata (list_of_set env (required_vars config)) valuelabel = Inr df"
  shows "fst (load_data env config valuelabel w) = Inr df"
    and "log (snd (load_data env config valuelabel w)) =
           log w' @ [(DEBUG, RequestingVariables (list_of_set env (required_vars config))),
                     (INFO, LoadedShape (shape df)), (DEBUG, ColumnsLoaded (columns df))]
                  @ (if df_empty df then [(WARNING, EmptyFrame)] else [])"
  using assms
  by (simp_all add: load_data_def Let_def)

text \<open>
  With the two stages as modelled, \<open>load_data\<close> raises nothing but a
  \<open>DataLoaderError\<close>; \<open>validate_config\<close> raises nothing but a
  \<open>ConfigValidationError\<close> by its definition.
\<close>

lemma load_data_raises:
  assumes "fst (load_data env config valuelabel w) = Inl e"
  shows "cls e = DataLoaderError"
proof (cases "setup_stata env (logger INFO LoadAttempt w)")
  case (Pair r w')
  show ?thesis
  proof (cases r)
    case (Inl e')
    with Pair assms show ?thesis
      using load_data_setup_failed [of env w e' w' config valuelabel]
        setup_stata_raises [of env "logger INFO LoadAttempt w" e' w']
      by simp
  next
    case (Inr stata)
    show ?thesis
    proof (cases "stata (list_of_set env (required_vars config)) valuelabel")
      case (Inl e0)
      with Pair Inr assms show ?thesis
        using load_data_fetch_failed [of env w stata w' config valuelabel e0]
        by (cases "cls e0") (auto split: if_splits)
    next
      case (Inr df)
      with Pair \<open>r = Inr stata\<close> assms show ?thesis
        using load_data_fetched(1) [of env w stata w' config valuelabel df]
        by simp
    qed
  qed
qed

section \<open>Claims about the validation\<close>

text \<open>
  Claim C2. A raw mapping whose \<open>row_var\<close> and \<open>col_var\<close> are non-empty lists of
  strings without duplicates, whose \<open>value_var\<close> is a string, whose optional fields
  are absent, \<^verbatim>\<open>None\<close> or a string, and in which none of \<open>value_var\<close>, \<open>pweight\<close>,
  \<open>secondary_ref\<close> (where not \<^verbatim>\<open>None\<close>) occurs in \<open>row_var\<close> or \<open>col_var\<close>, is
  accepted by \<open>validate_config\<close>, and the object returned has exactly the input values
  in its five fields, an absent optional field being \<open>None\<close>.
\<close>

theorem validate_config_accepts:
  assumes "config_dict ''row_var'' = Some (PyList (map PyStr rs))" and "rs \<noteq> []" and "distinct rs"
    and "config_dict ''col_var'' = Some (PyList (map PyStr cs))" and "cs \<noteq> []" and "distinct cs"
    and "config_dict ''value_var'' = Some (PyStr v)"
    and "config_dict ''pweight'' = map_option PyStr p \<or> (config_dict ''pweight'' = Some PyNone \<and> p = None)"
    and "config_dict ''secondary_ref'' = map_option PyStr s \<or> (config_dict ''secondary_ref'' = Some PyNone \<and> s = None)"
    and "({v} \<union> set_option p \<union> set_option s) \<inter> (set rs \<union> set cs) = {}"
  shows "validate_config config_dict =
           Inr \<lparr>row_var = rs, col_var = cs, value_var = v, pweight = p, secondary_ref = s\<rparr>"
proof -
  let ?c = "\<lparr>row_var = rs, col_var = cs, value_var = v, pweight = p, secondary_ref = s\<rparr>"
  have fields: "validate_fields config_dict = Inr ?c"
    using assms(1,2,4,5,7,8,9) by (rule validate_fields_strings)
  have "core_vars ?c \<subseteq> {v} \<union> set_option p \<union> set_option s"
    by (auto simp: core_vars_eq)
  with assms(10) have "core_vars ?c \<inter> all_index_vars ?c = {}"
    by (auto simp: all_index_vars_def)
  with assms(3,6) have "check_variable_names_distinct ?c = Inr ?c"
    by (simp add: check_variable_names_distinct_ok)
  with fields show ?thesis
    by (simp add: validate_config_def model_validate_def)
qed

theorem validate_config_accepts_witness:
  "ex_income ''row_var'' = Some (PyList (map PyStr [''region'']))
   \<and> ex_income ''col_var'' = Some (PyList (map PyStr [''year'']))
   \<and> ex_income ''value_var'' = Some (PyStr ''income'')
   \<and> ex_income ''pweight'' = None \<and> ex_income ''secondary_ref'' = None
   \<and> validate_config ex_income =
         Inr \<lparr>row_var = [''region''], col_var = [''year''], value_var = ''income'',
              pweight = None, secondary_ref = None\<rparr>"
  using validate_config_accepts [of ex_income "[''region'']" "[''year'']" "''income''" None None]
  by (simp add: ex_income_def)

text \<open>
  Claim C1, as stated, fails in two ways. A \<open>pweight\<close> that is present but is the empty
  string is not a core variable for the validator (\<^verbatim>\<open>if self.pweight:\<close>), so a
  configuration whose \<open>row_var\<close> contains the empty string as well is accepted. And a
  raw configuration in which \<open>value_var\<close> occurs in \<open>row_var\<close> but \<open>col_var\<close> is empty is
  rejected by the validation of the fields, whose message names no overlapping variable.
\<close>

theorem overlap_claim_counterexample:
  "validate_config ex_empty_weight =
     Inr \<lparr>row_var = [[]], col_var = [''year''], value_var = ''income'',
          pweight = Some [], secondary_ref = None\<rparr>
   \<and> validate_config ex_no_columns =
     Inl (Exn ConfigValidationError (ValidationFailed [([Key ''col_var''], TooShort)]))"
  by (simp add: ex_empty_weight_def ex_no_columns_def validate_config_def model_validate_def
      validate_fields_def required_field_def optional_str_field_def validate_list_str_def
      validate_str_def check_variable_names_distinct_def core_vars_def all_index_vars_def
      add_if_truthy_def)

text \<open>
  Claim C1, amended. For every raw configuration whose fields pass the validation of
  the schema (\<open>row_var\<close> and \<open>col_var\<close> non-empty lists of strings, \<open>value_var\<close> a
  string, the optional fields absent, \<^verbatim>\<open>None\<close> or a string) and in which \<open>value_var\<close>,
  or a non-empty \<open>pweight\<close>, or a non-empty \<open>secondary_ref\<close> occurs in \<open>row_var\<close> or
  \<open>col_var\<close>: validation fails with a \<open>ConfigValidationError\<close> whose single entry
  carries the set of the overlapping names, that set is not empty, and the public
  function raises this error having made no call to the external session.
\<close>

theorem overlap_rejected_before_session:
  assumes "config_dict ''row_var'' = Some (PyList (map PyStr rs))" and "rs \<noteq> []"
    and "config_dict ''col_var'' = Some (PyList (map PyStr cs))" and "cs \<noteq> []"
    and "config_dict ''value_var'' = Some (PyStr v)"
    and "config_dict ''pweight'' = map_option PyStr p \<or> (config_dict ''pweight'' = Some PyNone \<and> p = None)"
    and "config_dict ''secondary_ref'' = map_option PyStr s \<or> (config_dict ''secondary_ref'' = Some PyNone \<and> s = None)"
    and "v \<in> set rs \<union> set cs
         \<or> (\<exists>x. p = Some x \<and> x \<noteq> [] \<and> x \<in> set rs \<union> set cs)
         \<or> (\<exists>x. s = Some x \<and> x \<noteq> [] \<and> x \<in> set rs \<union> set cs)"
  shows "let overlap = {x \<in> set rs \<union> set cs. x = v \<or> (x \<noteq> [] \<and> (p = Some x \<or> s = Some x))};
             e = Exn ConfigValidationError (ValidationFailed [([], ValueError (Overlap overlap))])
         in overlap \<noteq> {}
            \<and> validate_config config_dict = Inl e
            \<and> fst (stata_to_df env config_dict valuelabel w) = Inl e
            \<and> calls (snd (stata_to_df env config_dict valuelabel w)) = calls w"
proof -
  let ?c = "\<lparr>row_var = rs, col_var = cs, value_var = v, pweight = p, secondary_ref = s\<rparr>"
  let ?overlap = "{x \<in> set rs \<union> set cs. x = v \<or> (x \<noteq> [] \<and> (p = Some x \<or> s = Some x))}"
  let ?e = "Exn ConfigValidationError (ValidationFailed [([], ValueError (Overlap ?overlap))])"
  have fields: "validate_fields config_dict = Inr ?c"
    using assms(1-7) by (rule validate_fields_strings)
  have overlap: "core_vars ?c \<inter> all_index_vars ?c = ?overlap"
    by (auto simp: core_vars_eq all_index_vars_def)
  have nonempty: "?overlap \<noteq> {}"
    using assms(8) by auto
  then have "core_vars ?c \<inter> all_index_vars ?c \<noteq> {}"
    by (simp add: overlap)
  then have "check_variable_names_distinct ?c = Inl (Overlap (core_vars ?c \<inter> all_index_vars ?c))"
    by (rule check_variable_names_distinct_overlap)
  then have "check_variable_names_distinct ?c = Inl (Overlap ?overlap)"
    by (simp add: overlap)
  with fields have failed: "validate_config config_dict = Inl ?e"
    by (simp add: validate_config_def model_validate_def)
  then have "stata_to_df env config_dict valuelabel w =
               (Inl ?e, logger ERROR (ConfigOrLoadError (msg ?e)) w)"
    by (simp add: stata_to_df_def stata_to_df_with_def stata_to_df_except_def)
  with nonempty failed show ?thesis
    by (simp add: Let_def)
qed

theorem overlap_rejected_before_session_witness:
  "validate_config ex_weight_in_rows =
     Inl (Exn ConfigValidationError (ValidationFailed [([], ValueError (Overlap {''w''}))]))
   \<and> fst (stata_to_df ex_env ex_weight_in_rows True ex_world) =
     Inl (Exn ConfigValidationError (ValidationFailed [([], ValueError (Overlap {''w''}))]))
   \<and> calls (snd (stata_to_df ex_env ex_weight_in_rows True ex_world)) = []"
proof -
  have "{x \<in> set [''region'', ''w''] \<union> set [''year''].
          x = ''income'' \<or> (x \<noteq> [] \<and> (Some ''w'' = Some x \<or> None = Some x))} = {''w''}"
    by auto
  then show ?thesis
    using overlap_rejected_before_session
      [of ex_weight_in_rows "[''region'', ''w'']" "[''year'']" "''income''" "Some ''w''" None
          ex_env True ex_world]
    by (simp add: ex_weight_in_rows_def ex_world_def Let_def)
qed

text \<open>
  Claim C9, as stated, fails: with \<open>row_var = ["x"]\<close>, \<open>col_var = ["x"]\<close> and
  \<open>value_var = "v"\<close> the validator finds no overlap with a core variable and no
  duplicate inside either list, and the configuration is accepted.
\<close>

theorem shared_row_col_name_counterexample:
  "validate_config ex_x_x =
     Inr \<lparr>row_var = [''x''], col_var = [''x''], value_var = ''v'',
          pweight = None, secondary_ref = None\<rparr>
   \<and> \<not> isl (validate_config ex_x_x)"
  by (simp add: ex_x_x_def validate_config_def model_validate_def
      validate_fields_def required_field_def optional_str_field_def validate_list_str_def
      validate_str_def check_variable_names_distinct_def core_vars_def all_index_vars_def
      add_if_truthy_def)

text \<open>
  Claim C9, amended. A configuration with \<open>row_var = ["x"]\<close> and \<open>col_var = ["x"]\<close>,
  a \<open>value_var\<close> other than \<open>"x"\<close> and optional fields that are absent, \<^verbatim>\<open>None\<close> or
  a string other than \<open>"x"\<close> is valid: a name shared between \<open>row_var\<close> and \<open>col_var\<close>
  is no validation error.
\<close>

theorem shared_row_col_name_accepted:
  assumes "config_dict ''row_var'' = Some (PyList [PyStr ''x''])"
    and "config_dict ''col_var'' = Some (PyList [PyStr ''x''])"
    and "config_dict ''value_var'' = Some (PyStr v)" and "v \<noteq> ''x''"
    and "config_dict ''pweight'' = map_option PyStr p \<or> (config_dict ''pweight'' = Some PyNone \<and> p = None)"
    and "p \<noteq> Some ''x''"
    and "config_dict ''secondary_ref'' = map_option PyStr s \<or> (config_dict ''secondary_ref'' = Some PyNone \<and> s = None)"
    and "s \<noteq> Some ''x''"
  shows "validate_config config_dict =
           Inr \<lparr>row_var = [''x''], col_var = [''x''], value_var = v, pweight = p, secondary_ref = s\<rparr>"
proof -
  let ?c = "\<lparr>row_var = [''x''], col_var = [''x''], value_var = v, pweight = p, secondary_ref = s\<rparr>"
  have fields: "validate_fields config_dict = Inr ?c"
    using assms(1,2,3,5,7) validate_fields_strings [of config_dict "[''x'']" "[''x'']" v p s]
    by simp
  have "core_vars ?c \<inter> all_index_vars ?c = {}"
    using assms(4,6,8) by (auto simp: core_vars_eq all_index_vars_def)
  then have "check_variable_names_distinct ?c = Inr ?c"
    by (simp add: check_variable_names_distinct_ok)
  with fields show ?thesis
    by (simp add: validate_config_def model_validate_def)
qed

theorem shared_row_col_name_accepted_witness:
  "ex_x_x ''row_var'' = Some (PyList [PyStr ''x'']) \<and> ex_x_x ''col_var'' = Some (PyList [PyStr ''x''])
   \<and> ''v'' \<noteq> ''x''
   \<and> validate_config ex_x_x =
       Inr \<lparr>row_var = [''x''], col_var = [''x''], value_var = ''v'',
            pweight = None, secondary_ref = None\<rparr>"
  using shared_row_col_name_accepted [of ex_x_x "''v''" None None]
  by (simp add: ex_x_x_def)

section \<open>The entries of a failed field validation\<close>

lemma validate_str_errors:
  "errors_of (validate_str loc v) = (if is_str v then [] else [(loc, ValidString)])"
  by (cases v) (simp_all add: validate_str_def)

lemma validate_items_length:
  "length (fst (validate_items loc i vs)) + length (snd (validate_items loc i vs)) = length vs"
proof (induction vs arbitrary: i)
  case Nil
  show ?case by simp
next
  case (Cons v vs)
  obtain errs items where rest: "validate_items loc (Suc i) vs = (errs, items)"
    by (cases "validate_items loc (Suc i) vs")
  with Cons.IH [of "Suc i"] have "length errs + length items = length vs"
    by simp
  with rest show ?case
    by (cases v) (simp_all add: validate_str_def)
qed

lemma validate_items_errors:
  "set (fst (validate_items loc i vs)) =
     {(loc @ [Idx (i + j)], ValidString) | j. j < length vs \<and> \<not> is_str (vs ! j)}"
proof (induction vs arbitrary: i)
  case Nil
  show ?case by simp
next
  case (Cons v vs)
  have step: "set (fst (validate_items loc i (v # vs))) =
                set (errors_of (validate_str (loc @ [Idx i]) v)) \<union> set (fst (validate_items loc (Suc i) vs))"
    by (auto simp: validate_str_def split: prod.splits pyval.splits)
  have split: "{(loc @ [Idx (i + j)], ValidString) | j. j < length (v # vs) \<and> \<not> is_str ((v # vs) ! j)} =
                 (if is_str v then {} else {(loc @ [Idx i], ValidString)})
                 \<union> {(loc @ [Idx (Suc i + j)], ValidString) | j. j < length vs \<and> \<not> is_str (vs ! j)}"
    (is "?L = ?R")
  proof (rule set_eqI)
    fix e
    show "e \<in> ?L \<longleftrightarrow> e \<in> ?R"
    proof
      assume "e \<in> ?L"
      then obtain j where j: "e = (loc @ [Idx (i + j)], ValidString)" "j < length (v # vs)"
        "\<not> is_str ((v # vs) ! j)" by blast
      then show "e \<in> ?R" by (cases j) auto
    next
      assume "e \<in> ?R"
      then consider "\<not> is_str v" "e = (loc @ [Idx i], ValidString)"
        | j where "e = (loc @ [Idx (Suc i + j)], ValidString)" "j < length vs" "\<not> is_str (vs ! j)"
        by (auto split: if_splits)
      then show "e \<in> ?L"
      proof cases
        case 1
        then have "e = (loc @ [Idx (i + 0)], ValidString) \<and> 0 < length (v # vs) \<and> \<not> is_str ((v # vs) ! 0)"
          by simp
        then show ?thesis by blast
      next
        case 2
        then have "e = (loc @ [Idx (i + Suc j)], ValidString) \<and> Suc j < length (v # vs)
                     \<and> \<not> is_str ((v # vs) ! Suc j)"
          by simp
        then show ?thesis by blast
      qed
    qed
  qed
  show ?case
    unfolding step split Cons.IH by (simp add: validate_str_errors)
qed

lemma list_field_errors:
  "e \<in> set (errors_of (required_field validate_list_str config_dict name)) \<longleftrightarrow>
     (config_dict name = None \<and> e = ([Key name], FieldRequired))
   \<or> (\<exists>v. config_dict name = Some v \<and> \<not> is_list v \<and> e = ([Key name], ValidList))
   \<or> (config_dict name = Some (PyList []) \<and> e = ([Key name], TooShort))
   \<or> (\<exists>vs i. config_dict name = Some (PyList vs) \<and> i < length vs \<and> \<not> is_str (vs ! i)
         \<and> e = ([Key name, Idx i], ValidString))"
proof (cases "config_dict name")
  case None
  then show ?thesis by (simp add: required_field_def)
next
  case (Some v)
  show ?thesis
  proof (cases v)
    case (PyList vs)
    obtain errs items where vi: "validate_items [Key name] 0 vs = (errs, items)"
      by (cases "validate_items [Key name] 0 vs")
    have errs: "set errs = {([Key name, Idx j], ValidString) | j. j < length vs \<and> \<not> is_str (vs ! j)}"
      using validate_items_errors [of "[Key name]" 0 vs] vi by simp
    have len: "length errs + length items = length vs"
      using validate_items_length [of "[Key name]" 0 vs] vi by simp
    show ?thesis
    proof (cases "errs = []")
      case True
      with len have "items = [] \<longleftrightarrow> vs = []" by (cases items; cases vs) simp_all
      moreover from True errs have "\<forall>j<length vs. is_str (vs ! j)" by auto
      ultimately show ?thesis
        using Some PyList vi True
        by (auto simp: required_field_def validate_list_str_def)
    next
      case False
      then have "vs \<noteq> []" using len by auto
      with False show ?thesis
        using Some PyList vi errs
        by (auto simp: required_field_def validate_list_str_def)
    qed
  qed (use Some in \<open>auto simp: required_field_def validate_list_str_def\<close>)
qed

lemma str_field_errors:
  "e \<in> set (errors_of (required_field validate_str config_dict name)) \<longleftrightarrow>
     (config_dict name = None \<and> e = ([Key name], FieldRequired))
   \<or> (\<exists>v. config_dict name = Some v \<and> \<not> is_str v \<and> e = ([Key name], ValidString))"
  by (cases "config_dict name") (auto simp: required_field_def validate_str_errors)

lemma optional_field_errors:
  "e \<in> set (errors_of (optional_str_field config_dict name)) \<longleftrightarrow>
     (\<exists>v. config_dict name = Some v \<and> v \<noteq> PyNone \<and> \<not> is_str v \<and> e = ([Key name], ValidString))"
proof (cases "config_dict name")
  case None
  then show ?thesis by (simp add: optional_str_field_def)
next
  case (Some v)
  then show ?thesis
    by (cases v) (auto simp: optional_str_field_def validate_str_def)
qed

lemma list_field_failed:
  "required_field validate_list_str config_dict name = Inl errs \<Longrightarrow> errs \<noteq> []"
  by (auto simp: required_field_def validate_list_str_def split: option.splits pyval.splits prod.splits if_splits)

lemma str_field_failed:
  "required_field validate_str config_dict name = Inl errs \<Longrightarrow> errs \<noteq> []"
  by (auto simp: required_field_def validate_str_def split: option.splits pyval.splits)

lemma optional_field_failed:
  "optional_str_field config_dict name = Inl errs \<Longrightarrow> errs \<noteq> []"
  by (auto simp: optional_str_field_def validate_str_def split: option.splits pyval.splits)

lemma validate_fields_errors:
  assumes "validate_fields config_dict = Inl errs"
  shows "errs =
           errors_of (required_field validate_list_str config_dict ''row_var'')
         @ errors_of (required_field validate_list_str config_dict ''col_var'')
         @ errors_of (required_field validate_str config_dict ''value_var'')
         @ errors_of (optional_str_field config_dict ''pweight'')
         @ errors_of (optional_str_field config_dict ''secondary_ref'')"
    and "errs \<noteq> []"
  using assms
  by (auto simp: validate_fields_def Let_def split: sum.splits
           dest: list_field_failed str_field_failed optional_field_failed)

lemma validate_fields_no_errors:
  assumes "validate_fields config_dict = Inr c"
  shows "errors_of (required_field validate_list_str config_dict ''row_var'') = []"
    and "errors_of (required_field validate_list_str config_dict ''col_var'') = []"
    and "errors_of (required_field validate_str config_dict ''value_var'') = []"
    and "errors_of (optional_str_field config_dict ''pweight'') = []"
    and "errors_of (optional_str_field config_dict ''secondary_ref'') = []"
  using assms
  by (auto simp: validate_fields_def Let_def split: sum.splits)

lemma list_field_error_is_violation:
  assumes "e \<in> set (errors_of (required_field validate_list_str config_dict name))"
    and "name \<in> {''row_var'', ''col_var''}"
  shows "spec_violation config_dict e"
proof -
  from assms(2) have required: "name \<in> {''row_var'', ''col_var'', ''value_var''}"
    by auto
  from assms(1) consider
      "config_dict name = None" "e = ([Key name], FieldRequired)"
    | v where "config_dict name = Some v" "\<not> is_list v" "e = ([Key name], ValidList)"
    | "config_dict name = Some (PyList [])" "e = ([Key name], TooShort)"
    | vs i where "config_dict name = Some (PyList vs)" "i < length vs" "\<not> is_str (vs ! i)"
        "e = ([Key name, Idx i], ValidString)"
    unfolding list_field_errors by auto
  then show ?thesis
  proof cases
    case 1
    with required show ?thesis using missing_field [of name config_dict] by simp
  next
    case 2
    with assms(2) show ?thesis using not_a_list [of name config_dict v] by simp
  next
    case 3
    with assms(2) show ?thesis using empty_list [of name config_dict] by simp
  next
    case 4
    with assms(2) show ?thesis using item_not_a_string [of name config_dict vs i] by simp
  qed
qed

lemma value_field_error_is_violation:
  assumes "e \<in> set (errors_of (required_field validate_str config_dict ''value_var''))"
  shows "spec_violation config_dict e"
proof -
  from assms consider
      "config_dict ''value_var'' = None" "e = ([Key ''value_var''], FieldRequired)"
    | v where "config_dict ''value_var'' = Some v" "\<not> is_str v" "e = ([Key ''value_var''], ValidString)"
    unfolding str_field_errors by auto
  then show ?thesis
  proof cases
    case 1
    then show ?thesis using missing_field [of "''value_var''" config_dict] by simp
  next
    case 2
    then show ?thesis using value_not_a_string [of config_dict v] by simp
  qed
qed

lemma optional_field_error_is_violation:
  assumes "e \<in> set (errors_of (optional_str_field config_dict name))"
    and "name \<in> {''pweight'', ''secondary_ref''}"
  shows "spec_violation config_dict e"
proof -
  from assms(1) obtain v where "config_dict name = Some v" "v \<noteq> PyNone" "\<not> is_str v"
    "e = ([Key name], ValidString)"
    unfolding optional_field_errors by auto
  with assms(2) show ?thesis using optional_not_a_string [of name config_dict v] by simp
qed

lemma violation_is_field_error:
  assumes "spec_violation config_dict e"
  shows "e \<in> set (errors_of (required_field validate_list_str config_dict ''row_var'')
                 @ errors_of (required_field validate_list_str config_dict ''col_var'')
                 @ errors_of (required_field validate_str config_dict ''value_var'')
                 @ errors_of (optional_str_field config_dict ''pweight'')
                 @ errors_of (optional_str_field config_dict ''secondary_ref''))"
  using assms
proof cases
  case (missing_field name)
  then show ?thesis
    by (auto simp: list_field_errors str_field_errors)
next
  case (not_a_list name v)
  then show ?thesis
    by (auto simp: list_field_errors)
next
  case (empty_list name)
  then show ?thesis
    by (auto simp: list_field_errors)
next
  case (item_not_a_string name vs i)
  then show ?thesis
    by (auto simp: list_field_errors)
next
  case (value_not_a_string v)
  then show ?thesis
    by (auto simp: str_field_errors)
next
  case (optional_not_a_string name v)
  then show ?thesis
    by (auto simp: optional_field_errors)
qed

lemma field_error_is_violation:
  assumes "e \<in> set (errors_of (required_field validate_list_str config_dict ''row_var'')
                   @ errors_of (required_field validate_list_str config_dict ''col_var'')
                   @ errors_of (required_field validate_str config_dict ''value_var'')
                   @ errors_of (optional_str_field config_dict ''pweight'')
                   @ errors_of (optional_str_field config_dict ''secondary_ref''))"
  shows "spec_violation config_dict e"
proof -
  from assms consider
      "e \<in> set (errors_of (required_field validate_list_str config_dict ''row_var''))"
    | "e \<in> set (errors_of (required_field validate_list_str config_dict ''col_var''))"
    | "e \<in> set (errors_of (required_field validate_str config_dict ''value_var''))"
    | "e \<in> set (errors_of (optional_str_field config_dict ''pweight''))"
    | "e \<in> set (errors_of (optional_str_field config_dict ''secondary_ref''))"
    unfolding set_append Un_iff by blast
  then show ?thesis
  proof cases
    case 1
    then show ?thesis by (rule list_field_error_is_violation) simp
  next
    case 2
    then show ?thesis by (rule list_field_error_is_violation) simp
  next
    case 3
    then show ?thesis by (rule value_field_error_is_violation)
  next
    case 4
    then show ?thesis by (rule optional_field_error_is_violation) simp
  next
    case 5
    then show ?thesis by (rule optional_field_error_is_violation) simp
  qed
qed

lemma validate_fields_reports_violations:
  assumes "validate_fields config_dict = Inl errs"
  shows "set errs = {e. spec_violation config_dict e}"
  unfolding validate_fields_errors(1) [OF assms]
  using violation_is_field_error field_error_is_violation by blast

lemma validate_fields_accepts_no_violation:
  assumes "validate_fields config_dict = Inr c"
  shows "\<not> spec_violation config_dict e"
proof
  assume "spec_violation config_dict e"
  then have "e \<in> set (errors_of (required_field validate_list_str config_dict ''row_var'')
                 @ errors_of (required_field validate_list_str config_dict ''col_var'')
                 @ errors_of (required_field validate_str config_dict ''value_var'')
                 @ errors_of (optional_str_field config_dict ''pweight'')
                 @ errors_of (optional_str_field config_dict ''secondary_ref''))"
    by (rule violation_is_field_error)
  then show False
    unfolding validate_fields_no_errors [OF assms] by simp
qed

lemma spec_violation_not_value_error: "spec_violation config_dict (loc, m) \<Longrightarrow> m \<noteq> ValueError ve"
  by (auto elim: spec_violation.cases)

section \<open>Claims about the reported violations and about empty names\<close>

text \<open>
  Claim C4. When a raw mapping has two (or more) structural violations, \<open>validate_config\<close>
  raises one \<open>ConfigValidationError\<close> whose entries are exactly the structural
  violations of the mapping, both of the given ones among them, and no entry of the
  cross-field check. Conversely, whenever the error raised holds an entry of the
  cross-field check (overlap with the core variables, duplicate inside \<open>row_var\<close> or
  inside \<open>col_var\<close>), the mapping has no structural violation, the fields were
  validated into an object on which the check failed, and that entry is the only one.
  And when the fields pass the validation of the schema, the cross-field checks run, in
  this order: an overlap with the core variables, then a duplicate inside \<open>row_var\<close>,
  then a duplicate inside \<open>col_var\<close>; the first that fails raises one
  \<open>ConfigValidationError\<close> with the single entry that carries the offending names, and
  if none fails the object is returned.
\<close>

theorem structural_violations_aggregated:
  "(spec_violation config_dict e1 \<and> spec_violation config_dict e2 \<and> e1 \<noteq> e2 \<longrightarrow>
      (\<exists>errs. validate_config config_dict = Inl (Exn ConfigValidationError (ValidationFailed errs))
          \<and> e1 \<in> set errs \<and> e2 \<in> set errs
          \<and> set errs = {e. spec_violation config_dict e}
          \<and> (\<forall>l ve'. (l, ValueError ve') \<notin> set errs)))
   \<and> (validate_config config_dict = Inl (Exn k (ValidationFailed errs')) \<and> (loc, ValueError ve) \<in> set errs' \<longrightarrow>
        k = ConfigValidationError \<and> errs' = [([], ValueError ve)]
        \<and> (\<forall>e. \<not> spec_violation config_dict e)
        \<and> (\<exists>c. validate_fields config_dict = Inr c \<and> check_variable_names_distinct c = Inl ve))
   \<and> (config_dict ''row_var'' = Some (PyList (map PyStr rs)) \<and> rs \<noteq> []
        \<and> config_dict ''col_var'' = Some (PyList (map PyStr cs)) \<and> cs \<noteq> []
        \<and> config_dict ''value_var'' = Some (PyStr v)
        \<and> (config_dict ''pweight'' = map_option PyStr p
             \<or> (config_dict ''pweight'' = Some PyNone \<and> p = None))
        \<and> (config_dict ''secondary_ref'' = map_option PyStr s
             \<or> (config_dict ''secondary_ref'' = Some PyNone \<and> s = None)) \<longrightarrow>
        validate_config config_dict =
          (let overlap = {x \<in> set rs \<union> set cs. x = v \<or> (x \<noteq> [] \<and> (p = Some x \<or> s = Some x))}
           in if overlap \<noteq> {}
              then Inl (Exn ConfigValidationError (ValidationFailed [([], ValueError (Overlap overlap))]))
              else if \<not> distinct rs
              then Inl (Exn ConfigValidationError (ValidationFailed [([], ValueError (DuplicateRow rs))]))
              else if \<not> distinct cs
              then Inl (Exn ConfigValidationError (ValidationFailed [([], ValueError (DuplicateCol cs))]))
              else Inr \<lparr>row_var = rs, col_var = cs, value_var = v, pweight = p, secondary_ref = s\<rparr>))"
proof (rule conjI [OF impI conjI [OF impI impI]])
  assume violated: "spec_violation config_dict e1 \<and> spec_violation config_dict e2 \<and> e1 \<noteq> e2"
  show "\<exists>errs. validate_config config_dict = Inl (Exn ConfigValidationError (ValidationFailed errs))
          \<and> e1 \<in> set errs \<and> e2 \<in> set errs
          \<and> set errs = {e. spec_violation config_dict e}
          \<and> (\<forall>l ve'. (l, ValueError ve') \<notin> set errs)"
  proof (cases "validate_fields config_dict")
    case (Inr c)
    then have "\<not> spec_violation config_dict e1"
      by (rule validate_fields_accepts_no_violation)
    with violated show ?thesis by simp
  next
    case (Inl errs)
    then have all: "set errs = {e. spec_violation config_dict e}"
      by (rule validate_fields_reports_violations)
    then have "\<forall>l ve'. (l, ValueError ve') \<notin> set errs"
      using spec_violation_not_value_error by blast
    moreover have "validate_config config_dict = Inl (Exn ConfigValidationError (ValidationFailed errs))"
      using Inl by (simp add: validate_config_def model_validate_def)
    ultimately show ?thesis
      using all violated by blast
  qed
next
  assume raised: "validate_config config_dict = Inl (Exn k (ValidationFailed errs'))
                    \<and> (loc, ValueError ve) \<in> set errs'"
  show "k = ConfigValidationError \<and> errs' = [([], ValueError ve)]
        \<and> (\<forall>e. \<not> spec_violation config_dict e)
        \<and> (\<exists>c. validate_fields config_dict = Inr c \<and> check_variable_names_distinct c = Inl ve)"
  proof (cases "validate_fields config_dict")
    case (Inl errs)
    then have "validate_config config_dict = Inl (Exn ConfigValidationError (ValidationFailed errs))"
      by (simp add: validate_config_def model_validate_def)
    with raised have "(loc, ValueError ve) \<in> set errs"
      by simp
    then have "spec_violation config_dict (loc, ValueError ve)"
      using validate_fields_reports_violations [OF Inl] by simp
    then show ?thesis
      using spec_violation_not_value_error by blast
  next
    case (Inr c)
    then have none: "\<forall>e. \<not> spec_violation config_dict e"
      using validate_fields_accepts_no_violation by blast
    show ?thesis
    proof (cases "check_variable_names_distinct c")
      case (Inl ve')
      with Inr have "validate_config config_dict =
                       Inl (Exn ConfigValidationError (ValidationFailed [([], ValueError ve')]))"
        by (simp add: validate_config_def model_validate_def)
      with raised Inl Inr none show ?thesis by auto
    next
      case (Inr c')
      with \<open>validate_fields config_dict = Inr c\<close> have "validate_config config_dict = Inr c'"
        by (simp add: validate_config_def model_validate_def)
      with raised show ?thesis by simp
    qed
  qed
next
  let ?c = "\<lparr>row_var = rs, col_var = cs, value_var = v, pweight = p, secondary_ref = s\<rparr>"
  let ?overlap = "{x \<in> set rs \<union> set cs. x = v \<or> (x \<noteq> [] \<and> (p = Some x \<or> s = Some x))}"
  assume valid: "config_dict ''row_var'' = Some (PyList (map PyStr rs)) \<and> rs \<noteq> []
        \<and> config_dict ''col_var'' = Some (PyList (map PyStr cs)) \<and> cs \<noteq> []
        \<and> config_dict ''value_var'' = Some (PyStr v)
        \<and> (config_dict ''pweight'' = map_option PyStr p
             \<or> (config_dict ''pweight'' = Some PyNone \<and> p = None))
        \<and> (config_dict ''secondary_ref'' = map_option PyStr s
             \<or> (config_dict ''secondary_ref'' = Some PyNone \<and> s = None))"
  then have fields: "validate_fields config_dict = Inr ?c"
    using validate_fields_strings [of config_dict rs cs v p s] by simp
  have overlap: "core_vars ?c \<inter> all_index_vars ?c = ?overlap"
    by (auto simp: core_vars_eq all_index_vars_def)
  have "check_variable_names_distinct ?c =
          (if ?overlap \<noteq> {} then Inl (Overlap ?overlap)
           else if \<not> distinct rs then Inl (DuplicateRow rs)
           else if \<not> distinct cs then Inl (DuplicateCol cs)
           else Inr ?c)"
    unfolding check_variable_names_distinct_def Let_def overlap no_duplicates_iff by simp
  with fields show "validate_config config_dict =
          (let overlap = ?overlap
           in if overlap \<noteq> {}
              then Inl (Exn ConfigValidationError (ValidationFailed [([], ValueError (Overlap overlap))]))
              else if \<not> distinct rs
              then Inl (Exn ConfigValidationError (ValidationFailed [([], ValueError (DuplicateRow rs))]))
              else if \<not> distinct cs
              then Inl (Exn ConfigValidationError (ValidationFailed [([], ValueError (DuplicateCol cs))]))
              else Inr ?c)"
    by (simp add: validate_config_def model_validate_def Let_def)
qed

theorem structural_violations_aggregated_witness:
  "spec_violation ex_two_violations ([Key ''row_var''], FieldRequired)
   \<and> spec_violation ex_two_violations ([Key ''value_var''], ValidString)
   \<and> validate_config ex_two_violations =
       Inl (Exn ConfigValidationError
             (ValidationFailed [([Key ''row_var''], FieldRequired), ([Key ''value_var''], ValidString)]))
   \<and> {e. spec_violation ex_two_violations e} =
       {([Key ''row_var''], FieldRequired), ([Key ''value_var''], ValidString)}
   \<and> validate_config ex_weight_in_rows =
       Inl (Exn ConfigValidationError (ValidationFailed [([], ValueError (Overlap {''w''}))]))
   \<and> (\<forall>e. \<not> spec_violation ex_weight_in_rows e)
   \<and> validate_config ex_duplicate_rows =
       Inl (Exn ConfigValidationError
             (ValidationFailed [([], ValueError (DuplicateRow [''region'', ''region'']))]))"
proof -
  let ?e1 = "([Key ''row_var''], FieldRequired)" and ?e2 = "([Key ''value_var''], ValidString)"
  have v1: "spec_violation ex_two_violations ?e1"
    using missing_field [of "''row_var''" ex_two_violations] by (simp add: ex_two_violations_def)
  have v2: "spec_violation ex_two_violations ?e2"
    using value_not_a_string [of ex_two_violations "PyInt 3"] by (simp add: ex_two_violations_def)
  have two: "validate_config ex_two_violations =
               Inl (Exn ConfigValidationError (ValidationFailed [?e1, ?e2]))"
    by (simp add: ex_two_violations_def validate_config_def model_validate_def
        validate_fields_def required_field_def optional_str_field_def validate_list_str_def
        validate_str_def)
  have overlap: "validate_config ex_weight_in_rows =
                   Inl (Exn ConfigValidationError (ValidationFailed [([], ValueError (Overlap {''w''}))]))"
    by (simp add: ex_weight_in_rows_def validate_config_def model_validate_def
        validate_fields_def required_field_def optional_str_field_def validate_list_str_def
        validate_str_def check_variable_names_distinct_def core_vars_def all_index_vars_def
        add_if_truthy_def)
  have "{e. spec_violation ex_two_violations e} = {?e1, ?e2}"
    using structural_violations_aggregated [where config_dict = ex_two_violations
        and ?e1.0 = ?e1 and ?e2.0 = ?e2, THEN conjunct1] v1 v2 two
    by auto
  moreover have "\<forall>e. \<not> spec_violation ex_weight_in_rows e"
    using structural_violations_aggregated [where config_dict = ex_weight_in_rows
        and k = ConfigValidationError and errs' = "[([], ValueError (Overlap {''w''}))]"
        and loc = "[]" and ve = "Overlap {''w''}", THEN conjunct2, THEN conjunct1] overlap
    by simp
  moreover have "validate_config ex_duplicate_rows =
       Inl (Exn ConfigValidationError
             (ValidationFailed [([], ValueError (DuplicateRow [''region'', ''region'']))]))"
  proof -
    have "{x \<in> set [''region'', ''region''] \<union> set [''year''].
            x = ''income'' \<or> (x \<noteq> [] \<and> (None = Some x \<or> None = Some x))} = {}"
      by auto
    then show ?thesis
      using structural_violations_aggregated [where config_dict = ex_duplicate_rows
          and rs = "[''region'', ''region'']" and cs = "[''year'']" and v = "''income''"
          and p = None and s = None, THEN conjunct2, THEN conjunct2]
      by (simp add: ex_duplicate_rows_def Let_def)
  qed
  ultimately show ?thesis
    using v1 v2 two overlap by simp
qed

text \<open>
  Claim C10. An optional field that holds the empty string is treated as an absent one
  at both stages. The model validator gives, on an object whose \<open>pweight\<close> (or
  \<open>secondary_ref\<close>) is the empty string, the outcome it gives on the same object with
  that field \<open>None\<close>; \<open>load_data\<close> behaves on the one exactly as on the other, so the
  empty name is not added to what is requested. In particular a raw configuration with
  \<open>pweight = ""\<close> whose \<open>row_var\<close> contains \<open>""\<close> as well validates, provided the lists
  have no duplicates and neither \<open>value_var\<close> nor a non-empty \<open>secondary_ref\<close> occurs in
  them.
\<close>

theorem empty_name_treated_as_absent:
  "check_variable_names_distinct (c\<lparr>pweight := Some []\<rparr>) =
     map_sum id (\<lambda>c'. c'\<lparr>pweight := Some []\<rparr>) (check_variable_names_distinct (c\<lparr>pweight := None\<rparr>))
   \<and> check_variable_names_distinct (c\<lparr>secondary_ref := Some []\<rparr>) =
     map_sum id (\<lambda>c'. c'\<lparr>secondary_ref := Some []\<rparr>) (check_variable_names_distinct (c\<lparr>secondary_ref := None\<rparr>))
   \<and> required_vars (c\<lparr>pweight := Some []\<rparr>) = required_vars (c\<lparr>pweight := None\<rparr>)
   \<and> required_vars (c\<lparr>secondary_ref := Some []\<rparr>) = required_vars (c\<lparr>secondary_ref := None\<rparr>)
   \<and> load_data env (c\<lparr>pweight := Some []\<rparr>) valuelabel w = load_data env (c\<lparr>pweight := None\<rparr>) valuelabel w
   \<and> load_data env (c\<lparr>secondary_ref := Some []\<rparr>) valuelabel w =
       load_data env (c\<lparr>secondary_ref := None\<rparr>) valuelabel w
   \<and> (config_dict ''row_var'' = Some (PyList (map PyStr rs)) \<and> [] \<in> set rs \<and> distinct rs
       \<and> config_dict ''col_var'' = Some (PyList (map PyStr cs)) \<and> cs \<noteq> [] \<and> distinct cs
       \<and> config_dict ''value_var'' = Some (PyStr v) \<and> v \<notin> set rs \<union> set cs
       \<and> config_dict ''pweight'' = Some (PyStr [])
       \<and> (config_dict ''secondary_ref'' = map_option PyStr s
            \<or> (config_dict ''secondary_ref'' = Some PyNone \<and> s = None))
       \<and> (\<forall>x. s = Some x \<longrightarrow> x = [] \<or> x \<notin> set rs \<union> set cs)
       \<longrightarrow> validate_config config_dict =
             Inr \<lparr>row_var = rs, col_var = cs, value_var = v, pweight = Some [], secondary_ref = s\<rparr>)"
proof -
  have core_p: "core_vars (c\<lparr>pweight := Some []\<rparr>) = core_vars (c\<lparr>pweight := None\<rparr>)"
    by (auto simp: core_vars_eq)
  have core_s: "core_vars (c\<lparr>secondary_ref := Some []\<rparr>) = core_vars (c\<lparr>secondary_ref := None\<rparr>)"
    by (auto simp: core_vars_eq)
  have check_p: "check_variable_names_distinct (c\<lparr>pweight := Some []\<rparr>) =
      map_sum id (\<lambda>c'. c'\<lparr>pweight := Some []\<rparr>) (check_variable_names_distinct (c\<lparr>pweight := None\<rparr>))"
    by (simp add: check_variable_names_distinct_def core_p all_index_vars_def Let_def)
  have check_s: "check_variable_names_distinct (c\<lparr>secondary_ref := Some []\<rparr>) =
      map_sum id (\<lambda>c'. c'\<lparr>secondary_ref := Some []\<rparr>) (check_variable_names_distinct (c\<lparr>secondary_ref := None\<rparr>))"
    by (simp add: check_variable_names_distinct_def core_s all_index_vars_def Let_def)
  have req_p: "required_vars (c\<lparr>pweight := Some []\<rparr>) = required_vars (c\<lparr>pweight := None\<rparr>)"
    by (auto simp: required_vars_eq)
  have req_s: "required_vars (c\<lparr>secondary_ref := Some []\<rparr>) = required_vars (c\<lparr>secondary_ref := None\<rparr>)"
    by (auto simp: required_vars_eq)
  have load_p: "load_data env (c\<lparr>pweight := Some []\<rparr>) valuelabel w =
                  load_data env (c\<lparr>pweight := None\<rparr>) valuelabel w"
    by (simp add: load_data_def req_p)
  have load_s: "load_data env (c\<lparr>secondary_ref := Some []\<rparr>) valuelabel w =
                  load_data env (c\<lparr>secondary_ref := None\<rparr>) valuelabel w"
    by (simp add: load_data_def req_s)
  have raw: "validate_config config_dict =
               Inr \<lparr>row_var = rs, col_var = cs, value_var = v, pweight = Some [], secondary_ref = s\<rparr>"
    if h: "config_dict ''row_var'' = Some (PyList (map PyStr rs)) \<and> [] \<in> set rs \<and> distinct rs
       \<and> config_dict ''col_var'' = Some (PyList (map PyStr cs)) \<and> cs \<noteq> [] \<and> distinct cs
       \<and> config_dict ''value_var'' = Some (PyStr v) \<and> v \<notin> set rs \<union> set cs
       \<and> config_dict ''pweight'' = Some (PyStr [])
       \<and> (config_dict ''secondary_ref'' = map_option PyStr s
            \<or> (config_dict ''secondary_ref'' = Some PyNone \<and> s = None))
       \<and> (\<forall>x. s = Some x \<longrightarrow> x = [] \<or> x \<notin> set rs \<union> set cs)"
  proof -
    let ?c = "\<lparr>row_var = rs, col_var = cs, value_var = v, pweight = Some [], secondary_ref = s\<rparr>"
    from h have "rs \<noteq> []" by auto
    with h have fields: "validate_fields config_dict = Inr ?c"
      using validate_fields_strings [of config_dict rs cs v "Some []" s] by simp
    from h have "core_vars ?c \<inter> all_index_vars ?c = {}"
      by (auto simp: core_vars_eq all_index_vars_def)
    with h have "check_variable_names_distinct ?c = Inr ?c"
      by (simp add: check_variable_names_distinct_ok)
    with fields show ?thesis
      by (simp add: validate_config_def model_validate_def)
  qed
  from check_p check_s req_p req_s load_p load_s raw show ?thesis
    by blast
qed

theorem empty_name_treated_as_absent_witness:
  "ex_empty_weight ''pweight'' = Some (PyStr []) \<and> ex_empty_weight ''row_var'' = Some (PyList [PyStr []])
   \<and> validate_config ex_empty_weight =
       Inr \<lparr>row_var = [[]], col_var = [''year''], value_var = ''income'',
            pweight = Some [], secondary_ref = None\<rparr>"
  using empty_name_treated_as_absent [where config_dict = ex_empty_weight and rs = "[[]]"
      and cs = "[''year'']" and v = "''income''" and s = None and env = ex_env and w = ex_world
      and valuelabel = True
      and c = "\<lparr>row_var = [[]], col_var = [''year''], value_var = ''income'',
                pweight = Some [], secondary_ref = None\<rparr>"]
  by (simp add: ex_empty_weight_def)

section \<open>Claims about the loader and the public function\<close>

lemma ex_setup:
  "setup_stata ex_env (logger INFO LoadAttempt ex_world) =
     (Inr (pdataframe_from_data ex_pystata),
      \<lparr>sys_path = [''/stata/utilities'', ''mp''],
       calls = [ImportPystataConfig, ConfigInit ''mp'', ImportPystataStata],
       log = [(INFO, LoadAttempt), (DEBUG, SetupAttempt), (DEBUG, AddingPath ''/stata/utilities''),
              (DEBUG, AddingEdition ''mp''), (INFO, PystataInitialized)]\<rparr>)"
  by (simp add: setup_stata_def ex_env_def ex_world_def ex_pystata_def logger_def call_def
      add_to_sys_path_def Let_def)

lemma ex_setup_rejecting:
  "setup_stata ex_env_rejecting (logger INFO LoadAttempt ex_world) =
     (Inr (\<lambda>_ _. Inl ex_rejected),
      \<lparr>sys_path = [''/stata/utilities'', ''mp''],
       calls = [ImportPystataConfig, ConfigInit ''mp'', ImportPystataStata],
       log = [(INFO, LoadAttempt), (DEBUG, SetupAttempt), (DEBUG, AddingPath ''/stata/utilities''),
              (DEBUG, AddingEdition ''mp''), (INFO, PystataInitialized)]\<rparr>)"
  by (simp add: setup_stata_def ex_env_rejecting_def ex_env_def ex_world_def ex_pystata_def
      logger_def call_def add_to_sys_path_def Let_def)

text \<open>
  Claim C3, as stated, fails: for the validated configuration with \<open>pweight = ""\<close> the
  field is present, yet the empty name is not among the variables requested from the
  session.
\<close>

theorem required_set_claim_counterexample:
  "validate_config ex_empty_weight_only =
     Inr \<lparr>row_var = [''region''], col_var = [''year''], value_var = ''income'',
          pweight = Some [], secondary_ref = None\<rparr>
   \<and> calls (snd (load_data ex_env
                 \<lparr>row_var = [''region''], col_var = [''year''], value_var = ''income'',
                  pweight = Some [], secondary_ref = None\<rparr> True ex_world)) =
     [ImportPystataConfig, ConfigInit ''mp'', ImportPystataStata,
      PdataframeFromData [''income'', ''region'', ''year''] True]
   \<and> set [''income'', ''region'', ''year''] \<noteq>
       set [''region''] \<union> set [''year''] \<union> {''income''} \<union> {[]}"
proof -
  have "validate_config ex_empty_weight_only =
     Inr \<lparr>row_var = [''region''], col_var = [''year''], value_var = ''income'',
          pweight = Some [], secondary_ref = None\<rparr>"
    by (simp add: ex_empty_weight_only_def validate_config_def model_validate_def
        validate_fields_def required_field_def optional_str_field_def validate_list_str_def
        validate_str_def check_variable_names_distinct_def core_vars_def all_index_vars_def
        add_if_truthy_def)
  moreover have "list_of_set ex_env (required_vars
                   \<lparr>row_var = [''region''], col_var = [''year''], value_var = ''income'',
                    pweight = Some [], secondary_ref = None\<rparr>) = [''income'', ''region'', ''year'']"
    by (simp add: list_of_set_def ex_env_def required_vars_def add_if_truthy_def
        sorted_list_of_set_insert_remove sort_key_const)
  then have "calls (snd (load_data ex_env
                 \<lparr>row_var = [''region''], col_var = [''year''], value_var = ''income'',
                  pweight = Some [], secondary_ref = None\<rparr> True ex_world)) =
     [ImportPystataConfig, ConfigInit ''mp'', ImportPystataStata,
      PdataframeFromData [''income'', ''region'', ''year''] True]"
    using load_data_calls [OF ex_setup] by simp
  ultimately show ?thesis
    by auto
qed

text \<open>
  Claim C3, amended. For every configuration, when the session has been set up,
  \<open>load_data\<close> makes one data request, and its variable list has no duplicates and is,
  as a set, \<open>set(row_var) \<union> set(col_var) \<union> {value_var}\<close> together with \<open>pweight\<close> and
  \<open>secondary_ref\<close> where these are present and not the empty string; this set is the
  same for any other ordering (or repetition) of the names within \<open>row_var\<close> and
  \<open>col_var\<close>. This holds whatever the order in which the set is enumerated.
\<close>

theorem required_set_requested:
  assumes "setup_stata env (logger INFO LoadAttempt w) = (Inr stata, w')"
  shows "\<exists>vars. calls (snd (load_data env config valuelabel w)) =
                  calls w' @ [PdataframeFromData vars valuelabel]
           \<and> distinct vars
           \<and> set vars = set (row_var config) \<union> set (col_var config) \<union> {value_var config}
                \<union> {name. pweight config = Some name \<and> name \<noteq> []}
                \<union> {name. secondary_ref config = Some name \<and> name \<noteq> []}
           \<and> (\<forall>rs cs. set rs = set (row_var config) \<and> set cs = set (col_var config) \<longrightarrow>
                  required_vars (config\<lparr>row_var := rs, col_var := cs\<rparr>) = set vars)"
proof -
  let ?vars = "list_of_set env (required_vars config)"
  have members: "set ?vars = required_vars config"
    by (rule set_list_of_set_required_vars)
  have "calls (snd (load_data env config valuelabel w)) = calls w' @ [PdataframeFromData ?vars valuelabel]"
    using assms by (rule load_data_calls)
  moreover have "distinct ?vars"
    by (rule distinct_list_of_set)
  moreover have "set ?vars = set (row_var config) \<union> set (col_var config) \<union> {value_var config}
                \<union> {name. pweight config = Some name \<and> name \<noteq> []}
                \<union> {name. secondary_ref config = Some name \<and> name \<noteq> []}"
    unfolding members by (rule required_vars_eq)
  moreover have "required_vars (config\<lparr>row_var := rs, col_var := cs\<rparr>) = set ?vars"
    if "set rs = set (row_var config) \<and> set cs = set (col_var config)" for rs cs
    unfolding members using that by (simp add: required_vars_eq)
  ultimately show ?thesis
    by blast
qed

theorem required_set_requested_witness:
  "\<exists>vars. calls (snd (load_data ex_env
                       \<lparr>row_var = [''region''], col_var = [''year''], value_var = ''income'',
                        pweight = Some ''w'', secondary_ref = None\<rparr> True ex_world)) =
            [ImportPystataConfig, ConfigInit ''mp'', ImportPystataStata, PdataframeFromData vars True]
          \<and> distinct vars \<and> set vars = {''region'', ''year'', ''income'', ''w''}"
  using required_set_requested [OF ex_setup,
      of "\<lparr>row_var = [''region''], col_var = [''year''], value_var = ''income'',
           pweight = Some ''w'', secondary_ref = None\<rparr>" True]
  by auto

text \<open>
  Claim C5. When the session has been set up and the data request raises an exception,
  \<open>load_data\<close> raises that very exception if it is a \<open>DataLoaderError\<close>, and otherwise
  a \<open>DataLoaderError\<close> whose message carries the list of the requested variables and the
  text of the original exception. When the set-up itself raises (always a
  \<open>DataLoaderError\<close>), \<open>load_data\<close> raises that exception unchanged. Exceptions are the
  subclasses of \<^verbatim>\<open>Exception\<close>.
\<close>

theorem load_data_wraps_once:
  "(setup_stata env (logger INFO LoadAttempt w) = (Inr stata, w')
      \<and> stata (list_of_set env (required_vars config)) valuelabel = Inl e \<longrightarrow>
        fst (load_data env config valuelabel w) =
          Inl (if cls e = DataLoaderError then e
               else Exn DataLoaderError (LoadFailed (list_of_set env (required_vars config)) (msg e))))
   \<and> (setup_stata env (logger INFO LoadAttempt w) = (Inl e', w') \<longrightarrow>
        cls e' = DataLoaderError \<and> fst (load_data env config valuelabel w) = Inl e')"
proof (rule conjI [OF impI impI])
  assume h: "setup_stata env (logger INFO LoadAttempt w) = (Inr stata, w')
      \<and> stata (list_of_set env (required_vars config)) valuelabel = Inl e"
  have "is_DataLoaderError (cls e) \<longleftrightarrow> cls e = DataLoaderError"
    by (cases "cls e") simp_all
  with h show "fst (load_data env config valuelabel w) =
          Inl (if cls e = DataLoaderError then e
               else Exn DataLoaderError (LoadFailed (list_of_set env (required_vars config)) (msg e)))"
    using load_data_fetch_failed [of env w stata w' config valuelabel e] by simp
next
  assume h: "setup_stata env (logger INFO LoadAttempt w) = (Inl e', w')"
  then show "cls e' = DataLoaderError \<and> fst (load_data env config valuelabel w) = Inl e'"
    using setup_stata_raises [OF h] load_data_setup_failed [OF h, of config valuelabel] by simp
qed

theorem load_data_wraps_once_witness:
  "fst (load_data ex_env_rejecting
          \<lparr>row_var = [''region''], col_var = [''year''], value_var = ''income'',
           pweight = None, secondary_ref = None\<rparr> True ex_world) =
     Inl (Exn DataLoaderError (LoadFailed [''income'', ''region'', ''year''] (Text ''variable not found'')))
   \<and> fst (load_data ex_env_no_edition
          \<lparr>row_var = [''region''], col_var = [''year''], value_var = ''income'',
           pweight = None, secondary_ref = None\<rparr> True ex_world) =
     Inl (Exn DataLoaderError EditionNotSet)"
proof -
  let ?config = "\<lparr>row_var = [''region''], col_var = [''year''], value_var = ''income'',
                   pweight = None, secondary_ref = None\<rparr>"
  have vars: "list_of_set ex_env_rejecting (required_vars ?config) = [''income'', ''region'', ''year'']"
    by (simp add: list_of_set_def ex_env_rejecting_def ex_env_def required_vars_def
        add_if_truthy_def sorted_list_of_set_insert_remove sort_key_const)
  have no_edition: "setup_stata ex_env_no_edition (logger INFO LoadAttempt ex_world) =
      (Inl (Exn DataLoaderError EditionNotSet),
       \<lparr>sys_path = [''/stata/utilities''], calls = [],
        log = [(INFO, LoadAttempt), (DEBUG, SetupAttempt), (DEBUG, AddingPath ''/stata/utilities''),
               (ERROR, ErrorMsg EditionNotSet)]\<rparr>)"
    by (simp add: setup_stata_def ex_env_no_edition_def ex_env_def ex_world_def logger_def
        add_to_sys_path_def Let_def)
  from load_data_wraps_once [where env = ex_env_rejecting and w = ex_world and config = ?config
      and valuelabel = True and stata = "\<lambda>_ _. Inl ex_rejected" and e = ex_rejected,
      THEN conjunct1] ex_setup_rejecting vars
  have "fst (load_data ex_env_rejecting ?config True ex_world) =
          Inl (Exn DataLoaderError (LoadFailed [''income'', ''region'', ''year''] (Text ''variable not found'')))"
    by (simp add: ex_rejected_def)
  moreover from load_data_wraps_once [where env = ex_env_no_edition and w = ex_world
      and config = ?config and valuelabel = True, THEN conjunct2] no_edition
  have "fst (load_data ex_env_no_edition ?config True ex_world) = Inl (Exn DataLoaderError EditionNotSet)"
    by simp
  ultimately show ?thesis
    by simp
qed

text \<open>
  Claim C6. If the runtime path or the edition identifier is absent from the process
  environment, \<open>load_data\<close> raises a \<open>DataLoaderError\<close> (saying which of the two is not
  set) and has made no call to the external collaborator, so no data request either.
\<close>

theorem missing_bootstrap_fails_before_request:
  assumes "PYSTATA_PATH env = None \<or> STATA_EDITION env = None"
  shows "\<exists>m. fst (load_data env config valuelabel w) = Inl (Exn DataLoaderError m)
             \<and> (m = PathNotSet \<or> m = EditionNotSet)
             \<and> calls (snd (load_data env config valuelabel w)) = calls w"
proof -
  obtain m w' where
    failed: "setup_stata env (logger INFO LoadAttempt w) = (Inl (Exn DataLoaderError m), w')"
    and m: "m = PathNotSet \<or> m = EditionNotSet"
    and calls: "calls w' = calls (logger INFO LoadAttempt w)"
    using setup_stata_not_configured [OF assms, of "logger INFO LoadAttempt w"] by blast
  from failed have "load_data env config valuelabel w = (Inl (Exn DataLoaderError m), w')"
    by (rule load_data_setup_failed)
  with m calls show ?thesis
    by simp
qed

theorem missing_bootstrap_fails_before_request_witness:
  "STATA_EDITION ex_env_no_edition = None
   \<and> fst (load_data ex_env_no_edition
          \<lparr>row_var = [''region''], col_var = [''year''], value_var = ''income'',
           pweight = None, secondary_ref = None\<rparr> True ex_world) =
       Inl (Exn DataLoaderError EditionNotSet)
   \<and> calls (snd (load_data ex_env_no_edition
          \<lparr>row_var = [''region''], col_var = [''year''], value_var = ''income'',
           pweight = None, secondary_ref = None\<rparr> True ex_world)) = []"
proof -
  let ?config = "\<lparr>row_var = [''region''], col_var = [''year''], value_var = ''income'',
                   pweight = None, secondary_ref = None\<rparr>"
  have absent: "STATA_EDITION ex_env_no_edition = None"
    by (simp add: ex_env_no_edition_def)
  have not_path: "fst (load_data ex_env_no_edition ?config True ex_world) \<noteq> Inl (Exn DataLoaderError PathNotSet)"
    by (simp add: load_data_def load_data_except_def setup_stata_def ex_env_no_edition_def
        ex_env_def Let_def)
  from missing_bootstrap_fails_before_request [of ex_env_no_edition ?config True ex_world] absent
  obtain m where raised: "fst (load_data ex_env_no_edition ?config True ex_world) = Inl (Exn DataLoaderError m)"
    and m: "m = PathNotSet \<or> m = EditionNotSet"
    and calls: "calls (snd (load_data ex_env_no_edition ?config True ex_world)) = calls ex_world"
    by blast
  from raised m not_path have "m = EditionNotSet"
    by auto
  with raised calls absent show ?thesis
    by (simp add: ex_world_def)
qed

text \<open>
  Claim C8. When the session has been set up and answers the data request with a table
  of zero rows, \<open>load_data\<close> returns that table; what it logs for the request is two
  debug records, one info record and the warning that the table is empty, and no
  error.
\<close>

theorem empty_table_returned:
  assumes "setup_stata env (logger INFO LoadAttempt w) = (Inr stata, w')"
    and "stata (list_of_set env (required_vars config)) valuelabel = Inr df"
    and "rows df = []"
  shows "fst (load_data env config valuelabel w) = Inr df
         \<and> log (snd (load_data env config valuelabel w)) =
             log w' @ [(DEBUG, RequestingVariables (list_of_set env (required_vars config))),
                       (INFO, LoadedShape (0, length (columns df))),
                       (DEBUG, ColumnsLoaded (columns df)),
                       (WARNING, EmptyFrame)]"
  using load_data_fetched [OF assms(1,2)] assms(3)
  by (simp add: df_empty_def shape_def)

theorem empty_table_returned_witness:
  "fst (load_data ex_env
          \<lparr>row_var = [''region''], col_var = [''year''], value_var = ''income'',
           pweight = None, secondary_ref = None\<rparr> True ex_world) =
     Inr \<lparr>columns = [''income'', ''region'', ''year''], rows = []\<rparr>
   \<and> (WARNING, EmptyFrame) \<in> set (log (snd (load_data ex_env
          \<lparr>row_var = [''region''], col_var = [''year''], value_var = ''income'',
           pweight = None, secondary_ref = None\<rparr> True ex_world)))"
proof -
  let ?config = "\<lparr>row_var = [''region''], col_var = [''year''], value_var = ''income'',
                   pweight = None, secondary_ref = None\<rparr>"
  let ?df = "\<lparr>columns = [''income'', ''region'', ''year''], rows = []\<rparr> :: string dataframe"
  have vars: "list_of_set ex_env (required_vars ?config) = [''income'', ''region'', ''year'']"
    by (simp add: list_of_set_def ex_env_def required_vars_def add_if_truthy_def
        sorted_list_of_set_insert_remove sort_key_const)
  have fetched: "pdataframe_from_data ex_pystata (list_of_set ex_env (required_vars ?config)) True = Inr ?df"
    by (simp add: vars ex_pystata_def)
  have no_rows: "rows ?df = []"
    by simp
  have ready: "setup_stata ex_env (logger INFO LoadAttempt ex_world) =
                 (Inr (pdataframe_from_data ex_pystata),
                  snd (setup_stata ex_env (logger INFO LoadAttempt ex_world)))"
    by (simp add: ex_setup)
  note returned = empty_table_returned [where env = ex_env and w = ex_world and config = ?config
      and valuelabel = True and df = ?df and stata = "pdataframe_from_data ex_pystata"
      and w' = "snd (setup_stata ex_env (logger INFO LoadAttempt ex_world))",
      OF ready fetched no_rows]
  from returned have "fst (load_data ex_env ?config True ex_world) = Inr ?df"
    by (rule conjunct1)
  moreover from returned have "(WARNING, EmptyFrame) \<in> set (log (snd (load_data ex_env ?config True ex_world)))"
    by (simp only: conjunct2 set_append list.set insert_iff Un_iff simp_thms)
  ultimately show ?thesis
    by (rule conjI)
qed

text \<open>
  Claim C7, as stated, fails in its second half: the handler of the public function for
  an exception outside the taxonomy logs it and executes a bare \<^verbatim>\<open>raise\<close>, so the
  exception leaves with its own class and is not wrapped in the base error.
\<close>

theorem entry_point_wrap_counterexample:
  "fst (stata_to_df_except (Exn (OtherException ''KeyError'') (Text ''k'')) ex_world
          :: (exn + string dataframe) \<times> world) =
     Inl (Exn (OtherException ''KeyError'') (Text ''k''))
   \<and> \<not> is_StataToDfBaseError (OtherException ''KeyError'')"
  by (simp add: stata_to_df_except_def)

text \<open>
  Claim C7, amended. The public function raises every exception that either of its two
  stages raises, unchanged, whether it is of the taxonomy or not, after one error record
  in the log; it wraps nothing, and a table that the loading stage returns is returned.
  This is stated for arbitrary stages (first three parts) and then for the repository's
  own: an error of \<open>validate_config\<close> is raised as it is, an error of \<open>load_data\<close> on
  the validated configuration is raised as it is, and nothing else is ever raised.
  Since the repository's stages wrap what they catch (\<open>load_data_raises\<close>), an
  exception outside the taxonomy reaches the second handler only from a stage that
  behaves otherwise, which is what the first three parts cover.
\<close>

theorem entry_point_reraises_unchanged:
  "(validate config_dict = Inl e \<longrightarrow>
      fst (stata_to_df_with validate load config_dict valuelabel w) = Inl e
      \<and> log (snd (stata_to_df_with validate load config_dict valuelabel w)) =
          log w @ [(ERROR, if is_StataToDfBaseError (cls e) then ConfigOrLoadError (msg e)
                           else UnexpectedError (msg e))])
   \<and> (validate config_dict = Inr config \<and> load config valuelabel w = (Inl e, w') \<longrightarrow>
      fst (stata_to_df_with validate load config_dict valuelabel w) = Inl e
      \<and> log (snd (stata_to_df_with validate load config_dict valuelabel w)) =
          log w' @ [(ERROR, if is_StataToDfBaseError (cls e) then ConfigOrLoadError (msg e)
                            else UnexpectedError (msg e))])
   \<and> (validate config_dict = Inr config \<and> load config valuelabel w = (Inr df, w') \<longrightarrow>
      stata_to_df_with validate load config_dict valuelabel w = (Inr df, w'))
   \<and> (validate_config config_dict = Inl x \<longrightarrow>
      fst (stata_to_df env config_dict valuelabel w) = Inl x)
   \<and> (validate_config config_dict = Inr c \<and> fst (load_data env c valuelabel w) = Inl x \<longrightarrow>
      fst (stata_to_df env config_dict valuelabel w) = Inl x)
   \<and> (validate_config config_dict = Inr c \<and> fst (load_data env c valuelabel w) = Inr t \<longrightarrow>
      fst (stata_to_df env config_dict valuelabel w) = Inr t)
   \<and> (fst (stata_to_df env config_dict valuelabel w) = Inl x \<longrightarrow>
        validate_config config_dict = Inl x
        \<or> (\<exists>c. validate_config config_dict = Inr c \<and> fst (load_data env c valuelabel w) = Inl x))"
proof -
  have stage1: "fst (stata_to_df_with validate load config_dict valuelabel w) = Inl e
      \<and> log (snd (stata_to_df_with validate load config_dict valuelabel w)) =
          log w @ [(ERROR, if is_StataToDfBaseError (cls e) then ConfigOrLoadError (msg e)
                           else UnexpectedError (msg e))]"
    if "validate config_dict = Inl e"
    using that by (simp add: stata_to_df_with_def stata_to_df_except_def)
  have stage2: "fst (stata_to_df_with validate load config_dict valuelabel w) = Inl e
      \<and> log (snd (stata_to_df_with validate load config_dict valuelabel w)) =
          log w' @ [(ERROR, if is_StataToDfBaseError (cls e) then ConfigOrLoadError (msg e)
                            else UnexpectedError (msg e))]"
    if "validate config_dict = Inr config \<and> load config valuelabel w = (Inl e, w')"
    using that by (simp add: stata_to_df_with_def stata_to_df_except_def)
  have returned: "stata_to_df_with validate load config_dict valuelabel w = (Inr df, w')"
    if "validate config_dict = Inr config \<and> load config valuelabel w = (Inr df, w')"
    using that by (simp add: stata_to_df_with_def)
  have own1: "fst (stata_to_df env config_dict valuelabel w) = Inl y"
    if "validate_config config_dict = Inl y" for y
    using that by (simp add: stata_to_df_def stata_to_df_with_def stata_to_df_except_def)
  have own2: "fst (stata_to_df env config_dict valuelabel w) = r"
    if "validate_config config_dict = Inr d" and "fst (load_data env d valuelabel w) = r" for d r
  proof -
    obtain r' w1 where loaded: "load_data env d valuelabel w = (r', w1)"
      by (cases "load_data env d valuelabel w")
    with that(2) have "r' = r" by simp
    with that(1) loaded show ?thesis
      by (cases r) (simp_all add: stata_to_df_def stata_to_df_with_def stata_to_df_except_def)
  qed
  have source: "validate_config config_dict = Inl x
        \<or> (\<exists>c. validate_config config_dict = Inr c \<and> fst (load_data env c valuelabel w) = Inl x)"
    if raised: "fst (stata_to_df env config_dict valuelabel w) = Inl x"
  proof (cases "validate_config config_dict")
    case (Inl y)
    with raised own1 [of y] show ?thesis
      by simp
  next
    case (Inr d)
    with raised own2 [of d "fst (load_data env d valuelabel w)"] show ?thesis
      by simp
  qed
  from stage1 stage2 returned own1 own2 source show ?thesis
    by blast
qed

theorem entry_point_reraises_unchanged_witness:
  "fst (stata_to_df_with validate_config ex_failing_load ex_income True ex_world) = Inl ex_key_error
   \<and> \<not> is_StataToDfBaseError (cls ex_key_error)
   \<and> log (snd (stata_to_df_with validate_config ex_failing_load ex_income True ex_world)) =
       [(ERROR, UnexpectedError (Text ''k''))]
   \<and> fst (stata_to_df ex_env_no_edition ex_income True ex_world) = Inl (Exn DataLoaderError EditionNotSet)
   \<and> fst (stata_to_df ex_env ex_two_violations True ex_world) =
       Inl (Exn ConfigValidationError
             (ValidationFailed [([Key ''row_var''], FieldRequired), ([Key ''value_var''], ValidString)]))
   \<and> fst (stata_to_df ex_env ex_income True ex_world) =
       Inr \<lparr>columns = [''income'', ''region'', ''year''], rows = []\<rparr>"
proof -
  let ?config = "\<lparr>row_var = [''region''], col_var = [''year''], value_var = ''income'',
                   pweight = None, secondary_ref = None\<rparr>"
  let ?cve = "Exn ConfigValidationError
                (ValidationFailed [([Key ''row_var''], FieldRequired), ([Key ''value_var''], ValidString)])"
  let ?df = "\<lparr>columns = [''income'', ''region'', ''year''], rows = []\<rparr> :: string dataframe"
  have valid: "validate_config ex_income = Inr ?config"
    by (simp add: ex_income_def validate_config_def model_validate_def
        validate_fields_def required_field_def optional_str_field_def validate_list_str_def
        validate_str_def check_variable_names_distinct_def core_vars_def all_index_vars_def
        add_if_truthy_def)
  have invalid: "validate_config ex_two_violations = Inl ?cve"
    by (simp add: ex_two_violations_def validate_config_def model_validate_def
        validate_fields_def required_field_def optional_str_field_def validate_list_str_def
        validate_str_def)
  have failing: "ex_failing_load ?config True ex_world = (Inl ex_key_error, ex_world)"
    by (simp add: ex_failing_load_def)
  have no_edition: "fst (load_data ex_env_no_edition ?config True ex_world) =
                      Inl (Exn DataLoaderError EditionNotSet)"
    by (simp add: load_data_def load_data_except_def setup_stata_def ex_env_no_edition_def
        ex_env_def Let_def)
  have vars: "list_of_set ex_env (required_vars ?config) = [''income'', ''region'', ''year'']"
    by (simp add: list_of_set_def ex_env_def required_vars_def add_if_truthy_def
        sorted_list_of_set_insert_remove sort_key_const)
  have "pdataframe_from_data ex_pystata (list_of_set ex_env (required_vars ?config)) True = Inr ?df"
    by (simp add: vars ex_pystata_def)
  then have loaded: "fst (load_data ex_env ?config True ex_world) = Inr ?df"
    by (rule load_data_fetched(1) [OF ex_setup])
  note general = entry_point_reraises_unchanged [where validate = validate_config
      and load = ex_failing_load and config_dict = ex_income and valuelabel = True
      and w = ex_world and config = ?config and e = ex_key_error and w' = ex_world
      and env = ex_env and x = ex_key_error and c = ?config and t = ?df and df = ?df]
  from general [THEN conjunct2, THEN conjunct1] valid failing
  have unexpected: "fst (stata_to_df_with validate_config ex_failing_load ex_income True ex_world) =
                      Inl ex_key_error
      \<and> log (snd (stata_to_df_with validate_config ex_failing_load ex_income True ex_world)) =
          [(ERROR, UnexpectedError (Text ''k''))]"
    by (simp add: ex_key_error_def ex_world_def)
  note own = entry_point_reraises_unchanged [where validate = validate_config
      and load = ex_failing_load and valuelabel = True and w = ex_world and config = ?config
      and e = ex_key_error and w' = ex_world and c = ?config and t = ?df and df = ?df]
  from own [where config_dict = ex_income and env = ex_env_no_edition
      and x = "Exn DataLoaderError EditionNotSet", THEN conjunct2, THEN conjunct2, THEN conjunct2,
      THEN conjunct2, THEN conjunct1] valid no_edition
  have loader: "fst (stata_to_df ex_env_no_edition ex_income True ex_world) =
                  Inl (Exn DataLoaderError EditionNotSet)"
    by simp
  from own [where config_dict = ex_two_violations and env = ex_env and x = ?cve,
      THEN conjunct2, THEN conjunct2, THEN conjunct2, THEN conjunct1] invalid
  have validator: "fst (stata_to_df ex_env ex_two_violations True ex_world) = Inl ?cve"
    by simp
  from own [where config_dict = ex_income and env = ex_env and x = ex_key_error,
      THEN conjunct2, THEN conjunct2, THEN conjunct2, THEN conjunct2, THEN conjunct2,
      THEN conjunct1] valid loaded
  have table: "fst (stata_to_df ex_env ex_income True ex_world) = Inr ?df"
    by simp
  from unexpected loader validator table show ?thesis
    by (simp add: ex_key_error_def)
qed

end
